theory Spec2Isabelle
  imports Main "HOL-Library.Word"
begin

unbundle bit_operations_syntax

section \<open>The expression rewriter of package plan (plan/expression\_rewriter.go)\<close>

text \<open>
  The rewriter turns a parsed expression into an \<open>Expression\<close> of package expression and,
  for subqueries, extends the logical plan. The Go code keeps its state in a struct that
  the visitor callbacks mutate; here every function takes the state and returns the new
  one. A Go function that returns \<open>(value, error)\<close> returns a pair whose second component
  is \<open>None\<close> for a nil error. A runtime panic of the Go code (an index out of range, a nil
  dereference, a failed type assertion) is the result \<open>None\<close> of the enclosing
  \<open>option\<close>.
\<close>

subsection \<open>Data\<close>

text \<open>
  The byte type codes the source names (\<open>mysql.TypeTiny\<close>, \<open>mysql.TypeNull\<close>,
  \<open>mysql.TypeString\<close>, and \<open>types.KindRow\<close> where the source passes it as one), by name;
  \<open>TypeCode n\<close> is any other code. A \<open>*types.FieldType\<close> is a \<open>fieldType option\<close>,
  \<open>None\<close> the nil pointer.
\<close>

datatype typeCode = TypeTiny | TypeNull | TypeString | KindRowCode | TypeCode nat

datatype fieldType = NewFieldType typeCode

text \<open>\<open>types.Datum\<close>: the kinds the rewriter builds or inspects. The zero Datum is \<open>KindNull\<close>.\<close>

datatype datum = KindNull | KindInt64 int | KindString string | KindRow "datum list"

fun IsNull :: "datum \<Rightarrow> bool" where
  "IsNull KindNull = True"
| "IsNull _ = False"

text \<open>
  \<open>expression.Column\<close>, with the names \<open>Schema.FindColumn\<close> compares and the type
  \<open>GetType\<close> returns. A \<open>Schema\<close> is a slice of columns.
\<close>

record column =
  DBName :: string
  TblName :: string
  ColName :: string
  RetType :: "fieldType option"

type_synonym Schema = "column list"

text \<open>
  The values of the Go interface \<open>Expression\<close>: the four implementing types, the nil
  interface (\<open>NilExpression\<close>) and the interface that holds a nil \<open>*ScalarFunction\<close>
  (\<open>NilScalarFunction\<close>: what \<open>NewFunction\<close> returns beside an error, once the result is
  stored in an \<open>Expression\<close>). A function's name is its lower-case form \<open>FuncName.L\<close>.
\<close>

datatype Expression =
    Column column
  | CorrelatedColumn column
  | Constant datum "fieldType option"
  | ScalarFunction string "Expression list" "fieldType option"
  | NilExpression
  | NilScalarFunction

datatype error =
    OperandShouldContain nat
  | ContextLenInvalid nat
  | UnknownCompareType
  | UnknownExistsType
  | UnknownUnaryOp
  | UnknownColumn string string string
  | UnknownSystemVar string
  | FunctionError string nat
  | CollaboratorError string

text \<open>
  The errors are told apart by their message: \<open>OperandShouldContain n\<close> is
  "Operand should contain n column(s)", \<open>ContextLenInvalid n\<close> is "context len n is
  invalid", \<open>UnknownColumn s t c\<close> is "Unknown column s t c.". \<open>errors.Trace\<close> only
  annotates an error with a source position and is the identity here.
\<close>

subsection \<open>Names of package ast and opcode\<close>

text \<open>
  Modelled from the spec: the function-name constants of package ast and the operator
  codes of package opcode with their table \<open>opcode.Ops\<close> are declared outside
  plan/expression\_rewriter.go. The names are the lower-case names the function registry
  is keyed by.
\<close>

definition ast_RowFunc :: string where "ast_RowFunc = ''row''"
definition ast_AndAnd :: string where "ast_AndAnd = ''and''"
definition ast_OrOr :: string where "ast_OrOr = ''or''"
definition ast_EQ :: string where "ast_EQ = ''eq''"
definition ast_LT :: string where "ast_LT = ''lt''"
definition ast_GT :: string where "ast_GT = ''gt''"
definition ast_LE :: string where "ast_LE = ''le''"
definition ast_GE :: string where "ast_GE = ''ge''"
definition ast_UnaryNot :: string where "ast_UnaryNot = ''not''"
definition ast_UnaryMinus :: string where "ast_UnaryMinus = ''unaryminus''"
definition ast_BitNeg :: string where "ast_BitNeg = ''bitneg''"
definition ast_SetVar :: string where "ast_SetVar = ''setvar''"
definition ast_GetVar :: string where "ast_GetVar = ''getvar''"

datatype opcode =
    OpAndAnd | OpLeftShift | OpRightShift | OpOrOr | OpGE | OpLE | OpEQ | OpNE | OpLT | OpGT
  | OpPlus | OpMinus | OpAnd | OpOr | OpMod | OpXor | OpDiv | OpMul | OpNot | OpBitNeg
  | OpIntDiv | OpLogicXor | OpNullEQ

fun Ops :: "opcode \<Rightarrow> string" where
  "Ops OpAndAnd = ''and''"
| "Ops OpLeftShift = ''leftshift''"
| "Ops OpRightShift = ''rightshift''"
| "Ops OpOrOr = ''or''"
| "Ops OpGE = ''ge''"
| "Ops OpLE = ''le''"
| "Ops OpEQ = ''eq''"
| "Ops OpNE = ''ne''"
| "Ops OpLT = ''lt''"
| "Ops OpGT = ''gt''"
| "Ops OpPlus = ''plus''"
| "Ops OpMinus = ''minus''"
| "Ops OpAnd = ''bitand''"
| "Ops OpOr = ''bitor''"
| "Ops OpMod = ''mod''"
| "Ops OpXor = ''bitxor''"
| "Ops OpDiv = ''div''"
| "Ops OpMul = ''mul''"
| "Ops OpNot = ''not''"
| "Ops OpBitNeg = ''bitneg''"
| "Ops OpIntDiv = ''intdiv''"
| "Ops OpLogicXor = ''xor''"
| "Ops OpNullEQ = ''nulleq''"

subsection \<open>Row-arity utilities\<close>

text \<open>
  \<open>getRowLen\<close>: the two type assertions of the source. On the nil interface both fail and
  the result is 1; on a nil \<open>*ScalarFunction\<close> the first succeeds and reading
  \<open>f.FuncName\<close> panics.
\<close>

fun getRowLen :: "Expression \<Rightarrow> nat option" where
  "getRowLen (ScalarFunction name args tp) =
     Some (if name = ast_RowFunc then length args else 1)"
| "getRowLen (Constant (KindRow ds) tp) = Some (length ds)"
| "getRowLen NilScalarFunction = None"
| "getRowLen _ = Some 1"

text \<open>
  \<open>getRowArg\<close>: \<open>f.Args[idx]\<close> for any scalar function; otherwise \<open>c, _ := e.(*Constant)\<close>
  leaves \<open>c\<close> nil unless \<open>e\<close> is a constant, and \<open>GetRow\<close> asserts that the datum holds a
  row. Every failure is a panic.
\<close>

fun getRowArg :: "Expression \<Rightarrow> nat \<Rightarrow> Expression option" where
  "getRowArg (ScalarFunction name args tp) idx =
     (if idx < length args then Some (args ! idx) else None)"
| "getRowArg (Constant (KindRow ds) tp) idx =
     (if idx < length ds then Some (Constant (ds ! idx) tp) else None)"
| "getRowArg _ idx = None"

subsection \<open>The collaborators\<close>

text \<open>
  Logical plans are built outside this file. The rewriter reads a plan's schema, its
  correlated flag and its first child, and tests whether a plan is a \<open>*Selection\<close>, whose
  \<open>Conditions\<close> it reads. Every other operator is named by its Go type.
\<close>

datatype planOp = Selection "Expression list" | LogicalOp string

datatype LogicalPlan =
  Plan (planOp: planOp) (GetSchema: Schema) (IsCorrelated: bool) (children: "LogicalPlan list")

text \<open>\<open>GetChildByIndex\<close> returns nil for an index out of range.\<close>

definition GetChildByIndex :: "LogicalPlan \<Rightarrow> nat \<Rightarrow> LogicalPlan option" where
  "GetChildByIndex pl i = (if i < length (children pl) then Some (children pl ! i) else None)"

record ApplyConditionChecker =
  Condition :: Expression
  checker_All :: bool

datatype PhysicalPlan = PhysicalPlan nat

datatype ResultSetNode = ResultSetNode string

record columnName =
  cn_Schema :: string
  cn_Table :: string
  cn_Name :: string

text \<open>
  The session: the user variables and the session's system variables
  (\<open>variable.SessionVars\<close>).
\<close>

record Context =
  Users :: "string \<rightharpoonup> string"
  systems :: "string \<rightharpoonup> string"

record SysVar =
  Scope :: "8 word"
  sv_Value :: string

definition ScopeNone :: "8 word" where "ScopeNone = 0"
definition ScopeGlobal :: "8 word" where "ScopeGlobal = 1"

text \<open>
  The \<open>planBuilder\<close> the rewriter points to: the Outer-Schema Stack, the builder's error
  slot and the session context.
\<close>

record planBuilder =
  outerSchemas :: "Schema list"
  b_err :: "error option"
  b_ctx :: Context

text \<open>
  Everything the rewriter calls that is defined outside plan/expression\_rewriter.go is a
  field of this record, so that every theorem holds for any implementation of it:
  the function registry \<open>evaluator.Funcs\<close> (whether a name accepts a number of
  arguments), the helpers of package expression, \<open>Schema.FindColumn\<close>, the plan builders,
  the eager evaluation of a plan, and the variable accessors.
\<close>

record collaborators =
  Funcs :: "string \<Rightarrow> nat \<Rightarrow> bool"
  ComposeCNFCondition :: "Expression list \<Rightarrow> Expression"
  SplitCNFItems :: "Expression \<Rightarrow> Expression list option"
  FindColumn :: "Schema \<Rightarrow> columnName \<Rightarrow> column option \<times> error option"
  buildResultSetNode :: "ResultSetNode \<Rightarrow> planBuilder \<Rightarrow> LogicalPlan \<times> planBuilder"
  buildApply :: "LogicalPlan \<Rightarrow> LogicalPlan \<Rightarrow> Schema \<Rightarrow> ApplyConditionChecker option \<Rightarrow> LogicalPlan"
  buildSemiJoin :: "LogicalPlan \<Rightarrow> LogicalPlan \<Rightarrow> Expression list \<Rightarrow> bool \<Rightarrow> bool \<Rightarrow> LogicalPlan"
  buildExists :: "LogicalPlan \<Rightarrow> LogicalPlan"
  PredicatePushDown :: "LogicalPlan \<Rightarrow> LogicalPlan \<times> error option"
  PruneColumnsAndResolveIndices :: "LogicalPlan \<Rightarrow> LogicalPlan \<times> error option"
  convert2PhysicalPlan :: "LogicalPlan \<Rightarrow> PhysicalPlan \<times> error option"
  EvalSubquery :: "PhysicalPlan \<Rightarrow> Context \<Rightarrow> datum list \<times> error option"
  ToLower :: "string \<Rightarrow> string"
  SysVars :: "string \<rightharpoonup> SysVar"
  GetGlobalSysVar :: "Context \<Rightarrow> string \<Rightarrow> string \<times> error option"
  GetSystemVar :: "Context \<Rightarrow> string \<Rightarrow> datum"
  SetSystemVar :: "Context \<Rightarrow> string \<Rightarrow> datum \<Rightarrow> Context \<times> error option"

text \<open>
  Modelled from the spec: \<open>NewFunction\<close> of package expression builds a function node by
  name over its arguments; whether the name resolves is up to the function registry, and
  an unresolved name is an error. The node it returns is a \<open>*ScalarFunction\<close>, nil beside
  an error.
\<close>

definition NewFunction ::
  "collaborators \<Rightarrow> string \<Rightarrow> fieldType option \<Rightarrow> Expression list \<Rightarrow> Expression \<times> error option" where
  "NewFunction c funcName retType args =
     (if Funcs c funcName (length args) then (ScalarFunction funcName args retType, None)
      else (NilScalarFunction, Some (FunctionError funcName (length args))))"

text \<open>
  Modelled from the spec: \<open>Clone\<close> of an expression is a logical duplicate, the same value.
  It is a method call, so it panics on the nil interface and on a nil pointer.
\<close>

fun Clone :: "Expression \<Rightarrow> Expression option" where
  "Clone NilExpression = None"
| "Clone NilScalarFunction = None"
| "Clone e = Some e"

text \<open>\<open>GetType\<close> is a method too: the \<open>RetType\<close> of the node.\<close>

fun GetType :: "Expression \<Rightarrow> fieldType option option" where
  "GetType (Column col) = Some (RetType col)"
| "GetType (CorrelatedColumn col) = Some (RetType col)"
| "GetType (Constant d tp) = Some tp"
| "GetType (ScalarFunction name args tp) = Some tp"
| "GetType NilExpression = None"
| "GetType NilScalarFunction = None"

subsection \<open>constructBinaryOpFunction\<close>

text \<open>
  The measure of the recursion: a row's components weigh less than the row.
\<close>

fun datum_weight :: "datum \<Rightarrow> nat" where
  "datum_weight (KindRow ds) = Suc (sum_list (map datum_weight ds))"
| "datum_weight _ = 0"

fun expr_weight :: "Expression \<Rightarrow> nat" where
  "expr_weight (ScalarFunction name args tp) = Suc (sum_list (map expr_weight args))"
| "expr_weight (Constant d tp) = datum_weight d"
| "expr_weight _ = 0"

lemma sum_list_nth_le: "i < length xs \<Longrightarrow> (xs ! i :: nat) \<le> sum_list xs"
  by (induction xs arbitrary: i) (auto simp: nth_Cons split: nat.splits intro: le_SucI trans_le_add2)

lemma getRowArg_weight: "getRowArg e i = Some x \<Longrightarrow> expr_weight x < expr_weight e"
proof (induction e i rule: getRowArg.induct)
  case (1 name args tp idx)
  then have "idx < length (map expr_weight args)" and "x = args ! idx"
    by (auto split: if_splits)
  then show ?case
    using sum_list_nth_le [of idx "map expr_weight args"] by simp
next
  case (2 ds tp idx)
  then have "idx < length (map datum_weight ds)" and "x = Constant (ds ! idx) tp"
    by (auto split: if_splits)
  then show ?case
    using sum_list_nth_le [of idx "map datum_weight ds"] by simp
qed simp_all

text \<open>
  The loop of the source fills \<open>funcs\<close>, a slice of \<open>lLen\<close> nil expressions, at index \<open>i\<close>
  and returns at the first error; it is the second function, with the loop variable
  and the slice as arguments.
\<close>

function constructBinaryOpFunction ::
    "collaborators \<Rightarrow> Expression \<Rightarrow> Expression \<Rightarrow> string \<Rightarrow> (Expression \<times> error option) option"
  and constructBinaryOpFunction_loop ::
    "collaborators \<Rightarrow> Expression \<Rightarrow> Expression \<Rightarrow> string \<Rightarrow> nat \<Rightarrow> nat \<Rightarrow> Expression list
      \<Rightarrow> (Expression \<times> error option) option" where
  "constructBinaryOpFunction c l r op =
     (case getRowLen l of None \<Rightarrow> None | Some lLen \<Rightarrow>
      (case getRowLen r of None \<Rightarrow> None | Some rLen \<Rightarrow>
        if lLen = 1 \<and> rLen = 1
        then Some (NewFunction c op (Some (NewFieldType TypeTiny)) [l, r])
        else if rLen \<noteq> lLen then Some (NilExpression, Some (OperandShouldContain lLen))
        else constructBinaryOpFunction_loop c l r op 0 lLen (replicate lLen NilExpression)))"
| "constructBinaryOpFunction_loop c l r op i lLen funcs =
     (if i < lLen then
        (case getRowArg l i of None \<Rightarrow> None | Some li \<Rightarrow>
         (case getRowArg r i of None \<Rightarrow> None | Some ri \<Rightarrow>
          (case constructBinaryOpFunction c li ri op of None \<Rightarrow> None
           | Some (f, err) \<Rightarrow>
             (case err of
                Some e \<Rightarrow> Some (NilExpression, Some e)
              | None \<Rightarrow>
                  if i < length funcs
                  then constructBinaryOpFunction_loop c l r op (i + 1) lLen (funcs[i := f])
                  else None))))
      else Some (ComposeCNFCondition c funcs, None))"
  by pat_completeness auto
termination
  by (relation "inv_image (less_than <*lex*> less_than)
        (\<lambda>x. case x of
            Inl (c, l, r, op) \<Rightarrow> (expr_weight l, case getRowLen l of None \<Rightarrow> 0 | Some n \<Rightarrow> Suc n)
          | Inr (c, l, r, op, i, lLen, funcs) \<Rightarrow> (expr_weight l, lLen - i))")
    (auto simp: getRowArg_weight)

declare constructBinaryOpFunction.simps [simp del]
declare constructBinaryOpFunction_loop.simps [simp del]

subsection \<open>The syntax tree and the rewriter's state\<close>

text \<open>
  Of the expression tree the modelled handlers only ask whether a node is a
  \<open>*ast.SubqueryExpr\<close> (whose \<open>Query\<close> they hand to the plan builder); every other node is
  visited through \<open>Accept\<close>, which is defined in package ast and is a parameter
  (\<open>accept\<close>) of the functions that call it. The records are the fields the handlers
  read of their node.
\<close>

datatype exprNode = SubqueryExpr ResultSetNode | ExprNode string "exprNode list"

record CompareSubqueryExpr =
  cs_L :: exprNode
  cs_Op :: opcode
  cs_R :: exprNode
  cs_All :: bool

record ExistsSubqueryExpr =
  ex_Sel :: exprNode

record PatternInExpr =
  in_Expr :: exprNode
  in_Not :: bool
  in_Sel :: exprNode
  in_Type :: fieldType

record UnaryOperationExpr =
  un_Op :: opcode
  un_Type :: fieldType

record BetweenExpr =
  bt_Not :: bool
  bt_Type :: fieldType

text \<open>\<open>vr_Value\<close> tells whether \<open>v.Value\<close> is not nil: the variable is assigned.\<close>

record VariableExpr =
  vr_Name :: string
  vr_IsGlobal :: bool
  vr_IsSystem :: bool
  vr_Value :: bool

text \<open>
  \<open>expressionRewriter\<close>. The builder \<open>b\<close> is a pointer in the source; the rewriter is the
  only code running while one of its handlers runs, so the builder's state is a field
  that the calls into the builder return updated. \<open>aggrMap\<close> and \<open>columnMap\<close> are read by
  \<open>Enter\<close> only and are left out.
\<close>

record expressionRewriter =
  ctxStack :: "Expression list"
  er_p :: LogicalPlan
  er_schema :: Schema
  er_err :: "error option"
  er_b :: planBuilder
  asScalar :: bool

type_synonym visitor = "exprNode \<Rightarrow> expressionRewriter \<Rightarrow> expressionRewriter option"

definition push :: "Expression \<Rightarrow> expressionRewriter \<Rightarrow> expressionRewriter" where
  "push e er = er\<lparr>ctxStack := ctxStack er @ [e]\<rparr>"

text \<open>\<open>er.ctxStack[len(er.ctxStack)-1] = e\<close>, on a stack that is not empty.\<close>

definition setTop :: "Expression \<Rightarrow> expressionRewriter \<Rightarrow> expressionRewriter" where
  "setTop e er = er\<lparr>ctxStack := (ctxStack er)[length (ctxStack er) - 1 := e]\<rparr>"

subsection \<open>rewrite\<close>

text \<open>
  The result of \<open>rewrite\<close> is the triple the source returns (a nil expression and a nil plan
  are \<open>None\<close>), with the builder as the traversal left it.
\<close>

definition rewrite ::
  "visitor \<Rightarrow> exprNode \<Rightarrow> LogicalPlan \<Rightarrow> bool \<Rightarrow> planBuilder
    \<Rightarrow> ((Expression option \<times> LogicalPlan option \<times> error option) \<times> planBuilder) option" where
  "rewrite accept expr pl asScalar' b =
     (let er = \<lparr>ctxStack = [], er_p = pl, er_schema = GetSchema pl, er_err = None, er_b = b,
                asScalar = asScalar'\<rparr>
      in case accept expr er of None \<Rightarrow> None | Some er \<Rightarrow>
        (case er_err er of
           Some e \<Rightarrow> Some ((None, None, Some e), er_b er)
         | None \<Rightarrow>
             if \<not> asScalar' \<and> length (ctxStack er) = 0
             then Some ((None, Some (er_p er), None), er_b er)
             else if length (ctxStack er) \<noteq> 1
             then Some ((None, None, Some (ContextLenInvalid (length (ctxStack er)))), er_b er)
             else (case getRowLen (ctxStack er ! 0) of None \<Rightarrow> None | Some n \<Rightarrow>
               if n \<noteq> 1 then Some ((None, None, Some (OperandShouldContain 1)), er_b er)
               else Some ((Some (ctxStack er ! 0), Some (er_p er), None), er_b er))))"

subsection \<open>buildSubquery\<close>

text \<open>
  The schema is cloned and appended to the builder's stack, the builder builds the nested
  plan, and the last entry of the stack is sliced off before the builder's error is
  looked at. The slice \<open>[0 : len-1]\<close> of an empty stack panics. The result is the
  rewriter and the pair the source returns, \<open>None\<close> for \<open>(nil, nil)\<close>.
\<close>

definition buildSubquery ::
  "collaborators \<Rightarrow> ResultSetNode \<Rightarrow> expressionRewriter
    \<Rightarrow> (expressionRewriter \<times> (LogicalPlan \<times> Schema) option) option" where
  "buildSubquery c query er =
     (let outerSchema = er_schema er;
          b1 = (er_b er)\<lparr>outerSchemas := outerSchemas (er_b er) @ [outerSchema]\<rparr>;
          (np, b2) = buildResultSetNode c query b1
      in if outerSchemas b2 = [] then None
         else let b3 = b2\<lparr>outerSchemas := take (length (outerSchemas b2) - 1) (outerSchemas b2)\<rparr>
           in (case b_err b3 of
                 Some e \<Rightarrow> Some (er\<lparr>er_b := b3, er_err := Some e\<rparr>, None)
               | None \<Rightarrow> Some (er\<lparr>er_b := b3\<rparr>, Some (np, outerSchema))))"

text \<open>The trailing column of a plan's schema, \<open>p.GetSchema()[len(p.GetSchema())-1]\<close>.\<close>

definition lastColumn :: "LogicalPlan \<Rightarrow> Expression option" where
  "lastColumn pl = (if GetSchema pl = [] then None else Some (Column (last (GetSchema pl))))"

text \<open>
  The right operand of a subquery comparison: the subquery's only column, or a row over
  all its columns, built with the given type.
\<close>

definition subqueryRow ::
  "collaborators \<Rightarrow> fieldType option \<Rightarrow> LogicalPlan \<Rightarrow> Expression \<times> error option" where
  "subqueryRow c tp np =
     (if length (GetSchema np) = 1 then (Column (GetSchema np ! 0), None)
      else NewFunction c ast_RowFunc tp (map Column (GetSchema np)))"

subsection \<open>handleCompareSubquery\<close>

definition handleCompareSubquery ::
  "collaborators \<Rightarrow> visitor \<Rightarrow> CompareSubqueryExpr \<Rightarrow> expressionRewriter
    \<Rightarrow> expressionRewriter option" where
  "handleCompareSubquery c accept v er =
     (case accept (cs_L v) er of None \<Rightarrow> None | Some er \<Rightarrow>
      if er_err er \<noteq> None then Some er
      else if ctxStack er = [] then None
      else let lexpr = last (ctxStack er) in
       (case cs_R v of
          ExprNode tp chs \<Rightarrow> Some (er\<lparr>er_err := Some UnknownCompareType\<rparr>)
        | SubqueryExpr query \<Rightarrow>
           (case buildSubquery c query er of None \<Rightarrow> None | Some (er, res) \<Rightarrow>
            if er_err er \<noteq> None then Some er
            else (case res of None \<Rightarrow> None | Some (np, outerSchema) \<Rightarrow>
             (let canMultiCol = (\<not> cs_All v \<and> cs_Op v = OpEQ) \<or> (cs_All v \<and> cs_Op v = OpNE)
              in case getRowLen lexpr of None \<Rightarrow> None | Some lLen \<Rightarrow>
               if \<not> canMultiCol \<and> (lLen \<noteq> 1 \<or> length (GetSchema np) \<noteq> 1)
               then Some (er\<lparr>er_err := Some (OperandShouldContain 1)\<rparr>)
               else if lLen \<noteq> length (GetSchema np)
               then Some (er\<lparr>er_err := Some (OperandShouldContain lLen)\<rparr>)
               else
                (case subqueryRow c (Some (NewFieldType KindRowCode)) np of
                   (rexpr, Some e) \<Rightarrow> Some (er\<lparr>er_err := Some e\<rparr>)
                 | (rexpr, None) \<Rightarrow>
                    (case (if cs_Op v = OpEQ \<or> cs_Op v = OpNE \<or> cs_Op v = OpNullEQ
                           then constructBinaryOpFunction c lexpr rexpr (Ops (cs_Op v))
                           else Some (NewFunction c (Ops (cs_Op v)) (Some (NewFieldType TypeTiny))
                                        [lexpr, rexpr]))
                     of None \<Rightarrow> None
                      | Some (checkCondition, Some e) \<Rightarrow> Some (er\<lparr>er_err := Some e\<rparr>)
                      | Some (checkCondition, None) \<Rightarrow>
                         (let pl = buildApply c (er_p er) np outerSchema
                                     (Some \<lparr>Condition = checkCondition, checker_All = cs_All v\<rparr>)
                          in case lastColumn pl of None \<Rightarrow> None
                             | Some col \<Rightarrow> Some (setTop col (er\<lparr>er_p := pl\<rparr>))))))))))"

subsection \<open>handleExistSubquery\<close>

text \<open>
  The eager evaluation of a plan that is not correlated: predicate push-down, column
  pruning (which changes the plan in place and is a function to the changed plan here),
  conversion to a physical plan and evaluation. The first error ends it. The result is
  the constant of the first value, typed by the first column.
\<close>

definition evalUncorrelated ::
  "collaborators \<Rightarrow> LogicalPlan \<Rightarrow> Context \<Rightarrow> (datum list \<times> LogicalPlan) \<times> error option" where
  "evalUncorrelated c np ctx =
     (case PredicatePushDown c np of
        (np, Some e) \<Rightarrow> (([], np), Some e)
      | (np, None) \<Rightarrow>
         (case PruneColumnsAndResolveIndices c np of
            (np, Some e) \<Rightarrow> (([], np), Some e)
          | (np, None) \<Rightarrow>
             (case convert2PhysicalPlan c np of
                (info, Some e) \<Rightarrow> (([], np), Some e)
              | (info, None) \<Rightarrow>
                 (case EvalSubquery c info ctx of
                    (d, Some e) \<Rightarrow> (([], np), Some e)
                  | (d, None) \<Rightarrow> ((d, np), None)))))"

definition handleExistSubquery ::
  "collaborators \<Rightarrow> ExistsSubqueryExpr \<Rightarrow> expressionRewriter \<Rightarrow> expressionRewriter option" where
  "handleExistSubquery c v er =
     (case ex_Sel v of
        ExprNode tp chs \<Rightarrow> Some (er\<lparr>er_err := Some UnknownExistsType\<rparr>)
      | SubqueryExpr query \<Rightarrow>
         (case buildSubquery c query er of None \<Rightarrow> None | Some (er, res) \<Rightarrow>
          if er_err er \<noteq> None then Some er
          else (case res of None \<Rightarrow> None | Some (np, outerSchema) \<Rightarrow>
           (let np = buildExists c np in
            if IsCorrelated np then
              (let apply = (let pl = buildApply c (er_p er) np outerSchema None
                            in case lastColumn pl of None \<Rightarrow> None
                               | Some col \<Rightarrow> Some (push col (er\<lparr>er_p := pl\<rparr>)))
               in case GetChildByIndex np 0 of
                    Some (Plan (Selection conditions) sch cor chs) \<Rightarrow>
                      (case GetChildByIndex (Plan (Selection conditions) sch cor chs) 0 of
                         None \<Rightarrow> None
                       | Some child \<Rightarrow>
                           if \<not> IsCorrelated child then
                             (let pl = buildSemiJoin c (er_p er) child conditions (asScalar er) False
                              in if \<not> asScalar er then Some (er\<lparr>er_p := pl\<rparr>)
                                 else (case lastColumn pl of None \<Rightarrow> None
                                       | Some col \<Rightarrow> Some (push col (er\<lparr>er_p := pl\<rparr>))))
                           else apply)
                  | _ \<Rightarrow> apply)
            else
              (case evalUncorrelated c np (b_ctx (er_b er)) of
                 (r, Some e) \<Rightarrow> Some (er\<lparr>er_err := Some e\<rparr>)
               | ((d, np), None) \<Rightarrow>
                   if d = [] \<or> GetSchema np = [] then None
                   else Some (push (Constant (d ! 0) (RetType (GetSchema np ! 0))) er))))))"

subsection \<open>handleInSubquery\<close>

definition handleInSubquery ::
  "collaborators \<Rightarrow> visitor \<Rightarrow> PatternInExpr \<Rightarrow> expressionRewriter \<Rightarrow> expressionRewriter option" where
  "handleInSubquery c accept v er =
     (let asScalar' = asScalar er in
      case accept (in_Expr v) (er\<lparr>asScalar := True\<rparr>) of None \<Rightarrow> None | Some er \<Rightarrow>
      if er_err er \<noteq> None then Some er
      else if ctxStack er = [] then None
      else let lexpr = last (ctxStack er) in
       (case in_Sel v of
          ExprNode tp chs \<Rightarrow> Some (er\<lparr>er_err := Some UnknownCompareType\<rparr>)
        | SubqueryExpr query \<Rightarrow>
           (case buildSubquery c query er of None \<Rightarrow> None | Some (er, res) \<Rightarrow>
            if er_err er \<noteq> None then Some er
            else (case res of None \<Rightarrow> None | Some (np, outerSchema) \<Rightarrow>
             (case getRowLen lexpr of None \<Rightarrow> None | Some lLen \<Rightarrow>
               if lLen \<noteq> length (GetSchema np)
               then Some (er\<lparr>er_err := Some (OperandShouldContain lLen)\<rparr>)
               else
                (case subqueryRow c None np of
                   (rexpr, Some e) \<Rightarrow> Some (er\<lparr>er_err := Some e\<rparr>)
                 | (rexpr, None) \<Rightarrow>
                    (case constructBinaryOpFunction c lexpr rexpr ast_EQ of None \<Rightarrow> None
                     | Some (checkCondition, err) \<Rightarrow>
                        if \<not> IsCorrelated np then
                          (case SplitCNFItems c checkCondition of None \<Rightarrow> None
                           | Some conditions \<Rightarrow>
                              (let pl = buildSemiJoin c (er_p er) np conditions asScalar' (in_Not v)
                               in if asScalar' then
                                    (case lastColumn pl of None \<Rightarrow> None
                                     | Some col \<Rightarrow> Some (setTop col (er\<lparr>er_p := pl\<rparr>)))
                                  else Some (er\<lparr>er_p := pl,
                                               ctxStack := take (length (ctxStack er) - 1) (ctxStack er)\<rparr>)))
                        else
                          (let checkCondition =
                                 (if in_Not v
                                  then fst (NewFunction c ast_UnaryNot (Some (in_Type v)) [checkCondition])
                                  else checkCondition)
                           in case err of
                                Some e \<Rightarrow> Some (er\<lparr>er_err := Some e\<rparr>)
                              | None \<Rightarrow>
                                 (let pl = buildApply c (er_p er) np outerSchema
                                        (Some \<lparr>Condition = checkCondition, checker_All = in_Not v\<rparr>)
                                  in case lastColumn pl of None \<Rightarrow> None
                                     | Some col \<Rightarrow> Some (setTop col (er\<lparr>er_p := pl\<rparr>)))))))))))"

subsection \<open>Node builders\<close>

text \<open>
  \<open>unaryOpToExpression\<close>: the row-length check records its error and the function goes
  on to the switch; the last statement assigns \<open>er.err\<close> again.
\<close>

definition unaryOpToExpression ::
  "collaborators \<Rightarrow> UnaryOperationExpr \<Rightarrow> expressionRewriter \<Rightarrow> expressionRewriter option" where
  "unaryOpToExpression c v er =
     (if ctxStack er = [] then None
      else case getRowLen (last (ctxStack er)) of None \<Rightarrow> None | Some n \<Rightarrow>
       (let er = (if n \<noteq> 1 then er\<lparr>er_err := Some (OperandShouldContain 1)\<rparr> else er);
            build = (\<lambda>op. case NewFunction c op (Some (un_Type v)) [last (ctxStack er)] of
                       (f, e) \<Rightarrow> Some ((setTop f er)\<lparr>er_err := e\<rparr>))
        in case un_Op v of
             OpPlus \<Rightarrow> Some er
           | OpMinus \<Rightarrow> build ast_UnaryMinus
           | OpBitNeg \<Rightarrow> build ast_BitNeg
           | OpNot \<Rightarrow> build ast_UnaryNot
           | _ \<Rightarrow> Some (er\<lparr>er_err := Some UnknownUnaryOp\<rparr>)))"

text \<open>
  \<open>betweenToExpression\<close>: the operands are the last three entries of the stack; with fewer
  the first index is negative and the access panics.
\<close>

definition betweenToExpression ::
  "collaborators \<Rightarrow> BetweenExpr \<Rightarrow> expressionRewriter \<Rightarrow> expressionRewriter option" where
  "betweenToExpression c v er =
     (let stkLen = length (ctxStack er) in
      if stkLen < 3 then None
      else
       (let val = ctxStack er ! (stkLen - 3);
            low = ctxStack er ! (stkLen - 2);
            high = ctxStack er ! (stkLen - 1);
            (opl, opr, op) = (if bt_Not v then (ast_LT, ast_GT, ast_OrOr)
                              else (ast_GE, ast_LE, ast_AndAnd))
        in case NewFunction c opl (Some (bt_Type v)) [val, low] of
             (l, Some e) \<Rightarrow> Some (er\<lparr>er_err := Some e\<rparr>)
           | (l, None) \<Rightarrow>
              (case Clone val of None \<Rightarrow> None | Some val' \<Rightarrow>
               (case NewFunction c opr (Some (bt_Type v)) [val', high] of
                  (r, Some e) \<Rightarrow> Some (er\<lparr>er_err := Some e\<rparr>)
                | (r, None) \<Rightarrow>
                   (case NewFunction c op (Some (bt_Type v)) [l, r] of
                      (function, Some e) \<Rightarrow> Some (er\<lparr>er_err := Some e\<rparr>)
                    | (function, None) \<Rightarrow>
                        Some (er\<lparr>ctxStack := take (stkLen - 3) (ctxStack er) @ [function],
                                 er_err := None\<rparr>))))))"



text \<open>\<open>datumToConstant\<close> and \<open>rewriteVariable\<close>.\<close>

definition datumToConstant :: "datum \<Rightarrow> typeCode \<Rightarrow> Expression" where
  "datumToConstant d tp = Constant d (Some (NewFieldType tp))"

definition rewriteVariable ::
  "collaborators \<Rightarrow> VariableExpr \<Rightarrow> expressionRewriter \<Rightarrow> expressionRewriter option" where
  "rewriteVariable c v er =
     (let name = ToLower c (vr_Name v);
          sessionVars = b_ctx (er_b er)
      in if \<not> vr_IsSystem v then
           (if vr_Value v then
              (if ctxStack er = [] then None
               else case GetType (last (ctxStack er)) of None \<Rightarrow> None | Some tp \<Rightarrow>
                (case NewFunction c ast_SetVar tp
                        [datumToConstant (KindString name) TypeString, last (ctxStack er)] of
                   (f, e) \<Rightarrow> Some ((setTop f er)\<lparr>er_err := e\<rparr>)))
            else if name \<in> dom (Users sessionVars) then
              (case NewFunction c ast_GetVar (Some (NewFieldType TypeString))
                      [datumToConstant (KindString name) TypeString] of
                 (f, Some e) \<Rightarrow> Some (er\<lparr>er_err := Some e\<rparr>)
               | (f, None) \<Rightarrow> Some (push f er))
            else Some (push (Constant KindNull (Some (NewFieldType TypeNull))) er))
         else
          (case SysVars c name of
             None \<Rightarrow> Some (er\<lparr>er_err := Some (UnknownSystemVar name)\<rparr>)
           | Some sysVar \<Rightarrow>
              if Scope sysVar = ScopeNone
              then Some (push (datumToConstant (KindString (sv_Value sysVar)) TypeString) er)
              else if vr_IsGlobal v then
                (case GetGlobalSysVar c sessionVars name of
                   (val, Some e) \<Rightarrow> Some (er\<lparr>er_err := Some e\<rparr>)
                 | (val, None) \<Rightarrow> Some (push (datumToConstant (KindString val) TypeString) er))
              else
                (let d = GetSystemVar c sessionVars name in
                 if IsNull d then
                   (if Scope sysVar AND ScopeGlobal = 0
                    then Some (push (datumToConstant (KindString (sv_Value sysVar)) TypeString) er)
                    else
                     (case GetGlobalSysVar c sessionVars name of
                        (globalVal, Some e) \<Rightarrow> Some (er\<lparr>er_err := Some e\<rparr>)
                      | (globalVal, None) \<Rightarrow>
                         (case SetSystemVar c sessionVars name (KindString globalVal) of
                            (ctx, Some e) \<Rightarrow>
                              Some (er\<lparr>er_b := (er_b er)\<lparr>b_ctx := ctx\<rparr>, er_err := Some e\<rparr>)
                          | (ctx, None) \<Rightarrow>
                              Some (push (datumToConstant (KindString globalVal) TypeString)
                                     (er\<lparr>er_b := (er_b er)\<lparr>b_ctx := ctx\<rparr>\<rparr>)))))
                 else Some (push (datumToConstant d TypeString) er))))"

subsection \<open>A reference implementation of the collaborators\<close>

text \<open>
  Modelled from the spec: one implementation of the collaborators, on which the
  functions above can be run. The theorems below hold for every implementation; this
  one supplies their concrete instances.

  The registry: the operators and functions the modelled handlers build, with the least
  and the greatest number of arguments each accepts (no greatest number for the row
  constructor, which takes two or more).
\<close>

definition registry :: "(string \<times> nat \<times> nat option) list" where
  "registry =
     [(''and'', 2, Some 2), (''or'', 2, Some 2), (''eq'', 2, Some 2), (''ne'', 2, Some 2),
      (''nulleq'', 2, Some 2), (''lt'', 2, Some 2), (''gt'', 2, Some 2), (''le'', 2, Some 2),
      (''ge'', 2, Some 2), (''not'', 1, Some 1), (''unaryminus'', 1, Some 1),
      (''bitneg'', 1, Some 1), (''row'', 2, None), (''getvar'', 1, Some 1),
      (''setvar'', 2, Some 2)]"

definition ref_Funcs :: "string \<Rightarrow> nat \<Rightarrow> bool" where
  "ref_Funcs name n =
     (case map_of registry name of
        None \<Rightarrow> False
      | Some (lo, hi) \<Rightarrow> lo \<le> n \<and> (case hi of None \<Rightarrow> True | Some h \<Rightarrow> n \<le> h))"

text \<open>
  Modelled from the spec: \<open>ComposeCNFCondition\<close> conjoins the scalar comparisons with AND:
  nil for no condition, the condition itself for one, and otherwise the AND of the two
  halves.
\<close>

lemma upper_half_less: "n \<noteq> 0 \<Longrightarrow> n \<noteq> Suc 0 \<Longrightarrow> n - n div 2 < (n::nat)"
  by arith

function ref_ComposeCNFCondition :: "Expression list \<Rightarrow> Expression" where
  "ref_ComposeCNFCondition conditions =
     (if length conditions = 0 then NilExpression
      else if length conditions = 1 then conditions ! 0
      else ScalarFunction ast_AndAnd
             [ref_ComposeCNFCondition (take (length conditions div 2) conditions),
              ref_ComposeCNFCondition (drop (length conditions div 2) conditions)]
             (Some (NewFieldType TypeTiny)))"
  by pat_completeness auto
termination
  by (relation "measure length") (auto simp: upper_half_less)

declare ref_ComposeCNFCondition.simps [simp del]

text \<open>
  Modelled from the spec: \<open>SplitCNFItems\<close> gives the conditions of a conjunction: the
  leaves under the AND nodes. Its type switch reads the name of a \<open>*ScalarFunction\<close>, so a
  nil one panics; the nil interface is returned as the only item.
\<close>

fun ref_SplitCNFItems :: "Expression \<Rightarrow> Expression list option" where
  "ref_SplitCNFItems (ScalarFunction name args tp) =
     (if name = ast_AndAnd
      then map_option concat (those (map ref_SplitCNFItems args))
      else Some [ScalarFunction name args tp])"
| "ref_SplitCNFItems NilScalarFunction = None"
| "ref_SplitCNFItems e = Some [e]"

text \<open>
  Modelled from the spec: a lookup by qualified name resolves to exactly one column or
  fails; an empty qualifier matches every column, and no match is neither.
\<close>

definition ref_FindColumn :: "Schema \<Rightarrow> columnName \<Rightarrow> column option \<times> error option" where
  "ref_FindColumn s v =
     (case filter (\<lambda>col. (cn_Schema v = [] \<or> cn_Schema v = DBName col) \<and>
                        (cn_Table v = [] \<or> cn_Table v = TblName col) \<and>
                        cn_Name v = ColName col) s of
        [] \<Rightarrow> (None, None)
      | [col] \<Rightarrow> (Some col, None)
      | _ \<Rightarrow> (None, Some (CollaboratorError ''ambiguous column'')))"

text \<open>
  Modelled from the spec: \<open>buildApply\<close> gives an apply whose schema is the outer plan's
  columns followed by the inner plan's, with one trailing match column when there is a
  condition checker; \<open>buildSemiJoin\<close> gives a semi-join with the outer plan's columns and
  a trailing column for its boolean result when that is asked for as a scalar;
  \<open>buildExists\<close> wraps a plan in an existence test with one boolean column.
\<close>

definition matchColumn :: "string \<Rightarrow> column" where
  "matchColumn name =
     \<lparr>DBName = [], TblName = [], ColName = name, RetType = Some (NewFieldType TypeTiny)\<rparr>"

definition ref_buildApply ::
  "LogicalPlan \<Rightarrow> LogicalPlan \<Rightarrow> Schema \<Rightarrow> ApplyConditionChecker option \<Rightarrow> LogicalPlan" where
  "ref_buildApply outer inner outerSchema checker =
     Plan (LogicalOp ''Apply'')
       (GetSchema outer @ GetSchema inner @
          (case checker of None \<Rightarrow> [] | Some ch \<Rightarrow> [matchColumn ''exists_row'']))
       (IsCorrelated outer) [outer, inner]"

definition ref_buildSemiJoin ::
  "LogicalPlan \<Rightarrow> LogicalPlan \<Rightarrow> Expression list \<Rightarrow> bool \<Rightarrow> bool \<Rightarrow> LogicalPlan" where
  "ref_buildSemiJoin outer inner onConditions asScalar' anti =
     Plan (LogicalOp (if anti then ''AntiSemiJoin'' else ''SemiJoin''))
       (GetSchema outer @ (if asScalar' then [matchColumn ''exists_col''] else []))
       (IsCorrelated outer) [outer, inner]"

definition ref_buildExists :: "LogicalPlan \<Rightarrow> LogicalPlan" where
  "ref_buildExists pl =
     Plan (LogicalOp ''Exists'') [matchColumn ''exists_col''] (IsCorrelated pl) [pl]"

text \<open>
  The nested build looks the query up in a catalogue of plans and records an error in
  the builder for a query it does not know; it leaves the Outer-Schema Stack as it is.
\<close>

definition emptyPlan :: LogicalPlan where
  "emptyPlan = Plan (LogicalOp ''TableDual'') [] False []"

definition ref_buildResultSetNode ::
  "(string \<times> LogicalPlan) list \<Rightarrow> ResultSetNode \<Rightarrow> planBuilder \<Rightarrow> LogicalPlan \<times> planBuilder" where
  "ref_buildResultSetNode catalogue query b =
     (case query of ResultSetNode text \<Rightarrow>
       (case map_of catalogue text of
          Some pl \<Rightarrow> (pl, b)
        | None \<Rightarrow> (emptyPlan, b\<lparr>b_err := Some (CollaboratorError text)\<rparr>)))"

text \<open>Lower case, of the ASCII letters.\<close>

definition ref_ToLower :: "string \<Rightarrow> string" where
  "ref_ToLower =
     map (\<lambda>ch. case map_of (zip ''ABCDEFGHIJKLMNOPQRSTUVWXYZ'' ''abcdefghijklmnopqrstuvwxyz'') ch of
                 None \<Rightarrow> ch | Some l \<Rightarrow> l)"

definition ref_SysVars :: "string \<rightharpoonup> SysVar" where
  "ref_SysVars =
     map_of [(''version'', \<lparr>Scope = 0, sv_Value = ''5.6.25''\<rparr>),
             (''autocommit'', \<lparr>Scope = 3, sv_Value = ''ON''\<rparr>)]"

definition ref_collaborators :: "(string \<times> LogicalPlan) list \<Rightarrow> collaborators" where
  "ref_collaborators catalogue =
     \<lparr>Funcs = ref_Funcs,
      ComposeCNFCondition = ref_ComposeCNFCondition,
      SplitCNFItems = ref_SplitCNFItems,
      FindColumn = ref_FindColumn,
      buildResultSetNode = ref_buildResultSetNode catalogue,
      buildApply = ref_buildApply,
      buildSemiJoin = ref_buildSemiJoin,
      buildExists = ref_buildExists,
      PredicatePushDown = (\<lambda>pl. (pl, None)),
      PruneColumnsAndResolveIndices = (\<lambda>pl. (pl, None)),
      convert2PhysicalPlan = (\<lambda>pl. (PhysicalPlan 0, None)),
      EvalSubquery = (\<lambda>pp ctx. ([KindInt64 1], None)),
      ToLower = ref_ToLower,
      SysVars = ref_SysVars,
      GetGlobalSysVar = (\<lambda>ctx name. case ref_SysVars name of
                            None \<Rightarrow> ([], Some (UnknownSystemVar name))
                          | Some sv \<Rightarrow> (sv_Value sv, None)),
      GetSystemVar = (\<lambda>ctx name. case systems ctx name of
                         None \<Rightarrow> KindNull | Some val \<Rightarrow> KindString val),
      SetSystemVar = (\<lambda>ctx name d. case d of
                         KindString val \<Rightarrow> (ctx\<lparr>systems := (systems ctx)(name \<mapsto> val)\<rparr>, None)
                       | _ \<Rightarrow> (ctx, Some (CollaboratorError ''cannot set variable'')))\<rparr>"

text \<open>The tables and the states of the concrete instances.\<close>

definition col :: "string \<Rightarrow> string \<Rightarrow> column" where
  "col tbl name = \<lparr>DBName = ''test'', TblName = tbl, ColName = name, RetType = Some (NewFieldType (TypeCode 3))\<rparr>"

definition table_t :: LogicalPlan where
  "table_t = Plan (LogicalOp ''DataSource'') [col ''t'' ''a'', col ''t'' ''k''] False []"

definition table_t2 :: LogicalPlan where
  "table_t2 = Plan (LogicalOp ''DataSource'') [col ''t2'' ''b'', col ''t2'' ''c''] False []"

definition table_t1col :: LogicalPlan where
  "table_t1col = Plan (LogicalOp ''DataSource'') [col ''t2'' ''b''] False []"

text \<open>
  The plan of \<open>select * from t2 where t2.c = t.k\<close> inside a query over \<open>t\<close>: a selection,
  correlated, over the table.
\<close>

definition correlated_filter :: LogicalPlan where
  "correlated_filter =
     Plan (Selection [ScalarFunction ''eq'' [Column (col ''t2'' ''c''), CorrelatedColumn (col ''t'' ''k'')]
                        (Some (NewFieldType TypeTiny))])
       [col ''t2'' ''b'', col ''t2'' ''c''] True [table_t2]"

text \<open>The same with a limit on top: a correlated plan that is not a selection.\<close>

definition correlated_limit :: LogicalPlan where
  "correlated_limit =
     Plan (LogicalOp ''Limit'') [col ''t2'' ''b'', col ''t2'' ''c''] True [correlated_filter]"

definition catalogue :: "(string \<times> LogicalPlan) list" where
  "catalogue =
     [(''select b, c from t2'', table_t2),
      (''select b from t2'', table_t1col),
      (''select * from t2 where t2.c = t.k'', correlated_filter),
      (''select * from t2 where t2.c = t.k limit 1'', correlated_limit)]"

definition builder0 :: planBuilder where
  "builder0 = \<lparr>outerSchemas = [], b_err = None,
               b_ctx = \<lparr>Users = [''x'' \<mapsto> ''1''], systems = Map.empty\<rparr>\<rparr>"

definition rewriter0 :: expressionRewriter where
  "rewriter0 = \<lparr>ctxStack = [], er_p = table_t, er_schema = GetSchema table_t, er_err = None,
                 er_b = builder0, asScalar = True\<rparr>"

definition intConst :: "int \<Rightarrow> Expression" where
  "intConst n = Constant (KindInt64 n) (Some (NewFieldType (TypeCode 8)))"

definition rowOf :: "Expression list \<Rightarrow> Expression" where
  "rowOf es = ScalarFunction ast_RowFunc es None"

text \<open>The rewriter inside two enclosing queries, over \<open>t2\<close> and, innermost, over \<open>t3\<close>.\<close>

definition rewriter1 :: expressionRewriter where
  "rewriter1 = rewriter0\<lparr>er_b := builder0\<lparr>outerSchemas := [GetSchema table_t2, [col ''t3'' ''b'']]\<rparr>\<rparr>"

text \<open>A visitor that pushes a given expression for whatever node it visits.\<close>

definition pushing :: "Expression \<Rightarrow> visitor" where
  "pushing e node er = Some (push e er)"

section \<open>Properties\<close>

subsection \<open>Facts used below\<close>

lemma getRowArg_defined:
  "getRowLen e = Some n \<Longrightarrow> n \<noteq> 1 \<Longrightarrow> i < n \<Longrightarrow> \<exists>x. getRowArg e i = Some x"
  by (induction e rule: getRowLen.induct) (auto split: if_splits)

lemma loop_all_ok:
  assumes "length fs = n"
    and "\<forall>j<n. \<exists>lj rj. getRowArg l j = Some lj \<and> getRowArg r j = Some rj \<and>
           constructBinaryOpFunction c lj rj op = Some (fs ! j, None)"
  shows "i \<le> n \<Longrightarrow> length funcs = n \<Longrightarrow> \<forall>j<i. funcs ! j = fs ! j \<Longrightarrow>
    constructBinaryOpFunction_loop c l r op i n funcs = Some (ComposeCNFCondition c fs, None)"
proof (induction "n - i" arbitrary: i funcs)
  case 0
  then have "i = n" by simp
  with 0 assms(1) have "funcs = fs" by (auto intro: nth_equalityI)
  with \<open>i = n\<close> show ?case
    by (simp add: constructBinaryOpFunction_loop.simps)
next
  case (Suc k)
  then have lt: "i < n" by simp
  with assms(2) obtain lj rj where a: "getRowArg l i = Some lj" "getRowArg r i = Some rj"
     "constructBinaryOpFunction c lj rj op = Some (fs ! i, None)" by blast
  have "constructBinaryOpFunction_loop c l r op (i + 1) n (funcs[i := fs ! i])
      = Some (ComposeCNFCondition c fs, None)"
  proof (rule Suc.hyps(1))
    show "k = n - (i + 1)" using Suc.hyps(2) by simp
    show "i + 1 \<le> n" using lt by simp
    show "length (funcs[i := fs ! i]) = n" using Suc.prems by simp
    show "\<forall>j<i + 1. funcs[i := fs ! i] ! j = fs ! j"
      using Suc.prems lt by (auto simp: nth_list_update less_Suc_eq)
  qed
  with a lt Suc.prems show ?case
    by (subst constructBinaryOpFunction_loop.simps) simp
qed

lemma all_less_2: "(\<forall>i<(2::nat). P i) \<longleftrightarrow> P 0 \<and> P 1"
  by (auto simp: less_2_cases_iff)

lemmas ref_simps = ref_collaborators_def ref_Funcs_def registry_def NewFunction_def
  intConst_def rowOf_def ast_RowFunc_def ast_EQ_def ast_AndAnd_def

lemmas state_simps = rewriter0_def rewriter1_def builder0_def table_t_def table_t2_def table_t1col_def
  catalogue_def col_def correlated_filter_def correlated_limit_def

lemma constructBinaryOpFunction_rows:
  assumes "getRowLen l = Some n" "getRowLen r = Some n" "1 < n" "length fs = n"
    and "\<forall>i<n. \<exists>li ri. getRowArg l i = Some li \<and> getRowArg r i = Some ri \<and>
           constructBinaryOpFunction c li ri op = Some (fs ! i, None)"
  shows "constructBinaryOpFunction c l r op = Some (ComposeCNFCondition c fs, None)"
proof -
  have "constructBinaryOpFunction_loop c l r op 0 n (replicate n NilExpression)
     = Some (ComposeCNFCondition c fs, None)"
    using assms by (intro loop_all_ok) auto
  with assms show ?thesis
    by (simp add: constructBinaryOpFunction.simps)
qed

lemma buildSubquery_frame:
  "buildSubquery c query er = Some (er', res) \<Longrightarrow>
     ctxStack er' = ctxStack er \<and> er_p er' = er_p er \<and> asScalar er' = asScalar er \<and>
     er_schema er' = er_schema er"
  by (auto simp: buildSubquery_def Let_def split: prod.splits option.splits if_splits)

lemmas eval_simps = handleCompareSubquery_def handleInSubquery_def buildSubquery_def subqueryRow_def
  lastColumn_def setTop_def push_def pushing_def NewFunction_def Let_def
  ref_collaborators_def ref_buildResultSetNode_def ref_buildApply_def ref_buildSemiJoin_def
  ref_Funcs_def registry_def catalogue_def rewriter0_def builder0_def table_t_def table_t2_def
  table_t1col_def rowOf_def intConst_def ast_RowFunc_def ast_EQ_def
  constructBinaryOpFunction.simps constructBinaryOpFunction_loop.simps

subsection \<open>Row decomposition of a comparison\<close>

text \<open>
  C2. For all expressions \<open>l\<close>, \<open>r\<close> and every operator: when both have row-length 1,
  \<open>constructBinaryOpFunction\<close> returns what \<open>NewFunction\<close> builds over the two operands, a
  single two-argument function node of that operator when the registry resolves it;
  when both have the same row-length \<open>n > 1\<close> and the comparisons of the components at
  the same positions return \<open>fs ! 0, ..., fs ! (n - 1)\<close>, every component exists and the
  result is the conjunction \<open>ComposeCNFCondition\<close> of exactly these \<open>n\<close> comparisons in
  order; when the row-lengths differ, the result is the error "Operand should contain
  m column(s)" with \<open>m\<close> the row-length of \<open>l\<close>, and no expression.
\<close>

theorem constructBinaryOpFunction_decomposes:
  "(\<forall>l r. getRowLen l = Some 1 \<and> getRowLen r = Some 1 \<longrightarrow>
      constructBinaryOpFunction c l r op =
        Some (NewFunction c op (Some (NewFieldType TypeTiny)) [l, r]) \<and>
      (Funcs c op 2 \<longrightarrow> constructBinaryOpFunction c l r op =
        Some (ScalarFunction op [l, r] (Some (NewFieldType TypeTiny)), None))) \<and>
   (\<forall>l r n fs. getRowLen l = Some n \<and> getRowLen r = Some n \<and> 1 < n \<and> length fs = n \<and>
      (\<forall>i<n. constructBinaryOpFunction c (the (getRowArg l i)) (the (getRowArg r i)) op
                = Some (fs ! i, None)) \<longrightarrow>
      (\<forall>i<n. getRowArg l i \<noteq> None \<and> getRowArg r i \<noteq> None) \<and>
      constructBinaryOpFunction c l r op = Some (ComposeCNFCondition c fs, None)) \<and>
   (\<forall>l r m k. getRowLen l = Some m \<and> getRowLen r = Some k \<and> m \<noteq> k \<longrightarrow>
      constructBinaryOpFunction c l r op = Some (NilExpression, Some (OperandShouldContain m)))"
proof (intro conjI allI impI)
  fix l r assume "getRowLen l = Some 1 \<and> getRowLen r = Some 1"
  then show s: "constructBinaryOpFunction c l r op =
        Some (NewFunction c op (Some (NewFieldType TypeTiny)) [l, r])"
    by (simp add: constructBinaryOpFunction.simps)
  assume "Funcs c op 2"
  with s show "constructBinaryOpFunction c l r op =
        Some (ScalarFunction op [l, r] (Some (NewFieldType TypeTiny)), None)"
    by (simp add: NewFunction_def numeral_2_eq_2)
next
  fix l r n fs
  assume h: "getRowLen l = Some n \<and> getRowLen r = Some n \<and> 1 < n \<and> length fs = n \<and>
      (\<forall>i<n. constructBinaryOpFunction c (the (getRowArg l i)) (the (getRowArg r i)) op
                = Some (fs ! i, None))"
  note gl = h [THEN conjunct1]
  note gr = h [THEN conjunct2, THEN conjunct1]
  note n1 = h [THEN conjunct2, THEN conjunct2, THEN conjunct1]
  note len = h [THEN conjunct2, THEN conjunct2, THEN conjunct2, THEN conjunct1]
  note cmp = h [THEN conjunct2, THEN conjunct2, THEN conjunct2, THEN conjunct2, rule_format]
  have d: "\<exists>li ri. getRowArg l i = Some li \<and> getRowArg r i = Some ri" if "i < n" for i
    using getRowArg_defined [OF gl _ that] getRowArg_defined [OF gr _ that] n1 by auto
  { fix i assume "i < n"
    with d show "getRowArg l i \<noteq> None" "getRowArg r i \<noteq> None" by fastforce+ }
  have "\<forall>i<n. \<exists>li ri. getRowArg l i = Some li \<and> getRowArg r i = Some ri \<and>
           constructBinaryOpFunction c li ri op = Some (fs ! i, None)"
  proof (intro allI impI)
    fix i assume i: "i < n"
    from d [OF i] obtain li ri where a: "getRowArg l i = Some li" "getRowArg r i = Some ri" by blast
    with cmp [OF i] show "\<exists>li ri. getRowArg l i = Some li \<and> getRowArg r i = Some ri \<and>
           constructBinaryOpFunction c li ri op = Some (fs ! i, None)" by simp
  qed
  then show "constructBinaryOpFunction c l r op = Some (ComposeCNFCondition c fs, None)"
    by (rule constructBinaryOpFunction_rows [OF gl gr n1 len])
next
  fix l r m k
  assume "getRowLen l = Some m \<and> getRowLen r = Some k \<and> m \<noteq> k"
  then show "constructBinaryOpFunction c l r op = Some (NilExpression, Some (OperandShouldContain m))"
    by (auto simp: constructBinaryOpFunction.simps)
qed

theorem constructBinaryOpFunction_decomposes_witness:
  "constructBinaryOpFunction (ref_collaborators []) (intConst 1) (intConst 2) ''eq'' =
     Some (ScalarFunction ''eq'' [intConst 1, intConst 2] (Some (NewFieldType TypeTiny)), None) \<and>
   constructBinaryOpFunction (ref_collaborators []) (rowOf [intConst 1, intConst 2])
       (rowOf [intConst 3, intConst 4]) ''eq'' =
     Some (ScalarFunction ''and''
             [ScalarFunction ''eq'' [intConst 1, intConst 3] (Some (NewFieldType TypeTiny)),
              ScalarFunction ''eq'' [intConst 2, intConst 4] (Some (NewFieldType TypeTiny))]
             (Some (NewFieldType TypeTiny)), None) \<and>
   constructBinaryOpFunction (ref_collaborators []) (rowOf [intConst 1, intConst 2]) (intConst 3) ''eq'' =
     Some (NilExpression, Some (OperandShouldContain 2))"
proof -
  let ?c = "ref_collaborators []"
  let ?eq = "\<lambda>a b. ScalarFunction ''eq'' [intConst a, intConst b] (Some (NewFieldType TypeTiny))"
  note T = constructBinaryOpFunction_decomposes [of ?c "''eq''"]
  note T1 = T [THEN conjunct1, rule_format]
  note T2 = T [THEN conjunct2, THEN conjunct1, rule_format]
  note T3 = T [THEN conjunct2, THEN conjunct2, rule_format]
  have f: "Funcs ?c ''eq'' 2" by (simp add: ref_simps)
  have 1: "constructBinaryOpFunction ?c (intConst a) (intConst b) ''eq'' = Some (?eq a b, None)" for a b
    by (rule T1 [THEN conjunct2, rule_format]) (simp_all add: intConst_def f)
  have "constructBinaryOpFunction ?c (rowOf [intConst 1, intConst 2]) (rowOf [intConst 3, intConst 4]) ''eq''
      = Some (ComposeCNFCondition ?c [?eq 1 3, ?eq 2 4], None)"
    by (rule T2 [of _ 2, THEN conjunct2]) (simp add: all_less_2 rowOf_def 1)
  moreover have "ComposeCNFCondition ?c [?eq 1 3, ?eq 2 4] =
      ScalarFunction ''and'' [?eq 1 3, ?eq 2 4] (Some (NewFieldType TypeTiny))"
    by (simp add: ref_collaborators_def ref_ComposeCNFCondition.simps [of "[a, b]" for a b]
          ref_ComposeCNFCondition.simps [of "[a]" for a] ast_AndAnd_def)
  moreover have "constructBinaryOpFunction ?c (rowOf [intConst 1, intConst 2]) (intConst 3) ''eq'' =
     Some (NilExpression, Some (OperandShouldContain 2))"
    by (rule T3 [of _ _ _ 1]) (simp add: rowOf_def intConst_def)
  ultimately show ?thesis using 1 by simp
qed

subsection \<open>The result of a rewrite asked for as a scalar\<close>

text \<open>
  C3. \<open>rewrite\<close> is called with \<open>asScalar\<close> true and the traversal returns the rewriter
  \<open>er\<close> with no error recorded. If the stack of \<open>er\<close> does not hold exactly one entry, the
  result is the error "context len n is invalid" with \<open>n\<close> the length of the stack; if it
  holds one entry whose row-length is not 1, the result is the error "Operand should
  contain 1 column(s)"; if it holds one entry of row-length 1, the result is that entry
  with the plan of \<open>er\<close>. Conversely, whenever such a call returns an expression without an
  error, the traversal has ended without an error on a stack that holds exactly this
  expression, of row-length 1. This holds for every traversal \<open>accept\<close>.
\<close>

theorem rewrite_scalar_result:
  "(\<forall>er. accept expr \<lparr>ctxStack = [], er_p = pl, er_schema = GetSchema pl, er_err = None,
                      er_b = b, asScalar = True\<rparr> = Some er \<and> er_err er = None \<longrightarrow>
      (length (ctxStack er) \<noteq> 1 \<longrightarrow>
         rewrite accept expr pl True b =
           Some ((None, None, Some (ContextLenInvalid (length (ctxStack er)))), er_b er)) \<and>
      (\<forall>e n. ctxStack er = [e] \<and> getRowLen e = Some n \<and> n \<noteq> 1 \<longrightarrow>
         rewrite accept expr pl True b = Some ((None, None, Some (OperandShouldContain 1)), er_b er)) \<and>
      (\<forall>e. ctxStack er = [e] \<and> getRowLen e = Some 1 \<longrightarrow>
         rewrite accept expr pl True b = Some ((Some e, Some (er_p er), None), er_b er))) \<and>
   (\<forall>e pl' b'. rewrite accept expr pl True b = Some ((Some e, pl', None), b') \<longrightarrow>
      (\<exists>er. accept expr \<lparr>ctxStack = [], er_p = pl, er_schema = GetSchema pl, er_err = None,
                         er_b = b, asScalar = True\<rparr> = Some er \<and> er_err er = None \<and>
            ctxStack er = [e] \<and> getRowLen e = Some 1 \<and> pl' = Some (er_p er) \<and> b' = er_b er))"
proof (intro conjI allI impI)
  fix er
  assume a: "accept expr \<lparr>ctxStack = [], er_p = pl, er_schema = GetSchema pl, er_err = None,
                      er_b = b, asScalar = True\<rparr> = Some er \<and> er_err er = None"
  { assume "length (ctxStack er) \<noteq> 1"
    with a show "rewrite accept expr pl True b =
           Some ((None, None, Some (ContextLenInvalid (length (ctxStack er)))), er_b er)"
      by (simp add: rewrite_def) }
  { fix e n assume "ctxStack er = [e] \<and> getRowLen e = Some n \<and> n \<noteq> 1"
    with a show "rewrite accept expr pl True b = Some ((None, None, Some (OperandShouldContain 1)), er_b er)"
      by (simp add: rewrite_def) }
  { fix e assume "ctxStack er = [e] \<and> getRowLen e = Some 1"
    with a show "rewrite accept expr pl True b = Some ((Some e, Some (er_p er), None), er_b er)"
      by (simp add: rewrite_def) }
next
  fix e pl' b'
  assume "rewrite accept expr pl True b = Some ((Some e, pl', None), b')"
  then show "\<exists>er. accept expr \<lparr>ctxStack = [], er_p = pl, er_schema = GetSchema pl, er_err = None,
                         er_b = b, asScalar = True\<rparr> = Some er \<and> er_err er = None \<and>
            ctxStack er = [e] \<and> getRowLen e = Some 1 \<and> pl' = Some (er_p er) \<and> b' = er_b er"
    by (auto simp: rewrite_def Let_def length_Suc_conv split: option.splits if_splits)
qed

text \<open>
  A bare row constructor, a traversal that leaves the stack empty, and a literal.
\<close>

theorem rewrite_scalar_result_witness:
  "rewrite (pushing (rowOf [intConst 1, intConst 2])) (ExprNode ''RowExpr'' []) table_t True builder0 =
     Some ((None, None, Some (OperandShouldContain 1)), builder0) \<and>
   rewrite (\<lambda>node er. Some er) (ExprNode ''ParenthesesExpr'' []) table_t True builder0 =
     Some ((None, None, Some (ContextLenInvalid 0)), builder0) \<and>
   rewrite (pushing (intConst 1)) (ExprNode ''ValueExpr'' []) table_t True builder0 =
     Some ((Some (intConst 1), Some table_t, None), builder0) \<and>
   ctxStack (the (pushing (intConst 1) (ExprNode ''ValueExpr'' [])
      \<lparr>ctxStack = [], er_p = table_t, er_schema = GetSchema table_t, er_err = None,
       er_b = builder0, asScalar = True\<rparr>)) = [intConst 1]"
proof -
  let ?er0 = "\<lparr>ctxStack = [], er_p = table_t, er_schema = GetSchema table_t, er_err = None,
       er_b = builder0, asScalar = True\<rparr>"
  note T = rewrite_scalar_result [of _ _ table_t builder0]
  have "rewrite (pushing (rowOf [intConst 1, intConst 2])) (ExprNode ''RowExpr'' []) table_t True builder0 =
     Some ((None, None, Some (OperandShouldContain 1)), er_b (push (rowOf [intConst 1, intConst 2]) ?er0))"
    by (rule T [THEN conjunct1, rule_format, THEN conjunct2, THEN conjunct1, rule_format,
          where e = "rowOf [intConst 1, intConst 2]" and n = 2])
       (simp_all add: pushing_def push_def rowOf_def)
  moreover have "rewrite (\<lambda>node er. Some er) (ExprNode ''ParenthesesExpr'' []) table_t True builder0 =
     Some ((None, None, Some (ContextLenInvalid (length (ctxStack ?er0)))), er_b ?er0)"
    by (rule T [THEN conjunct1, rule_format, THEN conjunct1, rule_format]) simp_all
  moreover have 3: "rewrite (pushing (intConst 1)) (ExprNode ''ValueExpr'' []) table_t True builder0 =
     Some ((Some (intConst 1), Some (er_p (push (intConst 1) ?er0)), None), er_b (push (intConst 1) ?er0))"
    by (rule T [THEN conjunct1, rule_format, THEN conjunct2, THEN conjunct2, rule_format,
          where e = "intConst 1"])
       (simp_all add: pushing_def push_def intConst_def)
  moreover from T [THEN conjunct2, rule_format, OF 3]
  have "ctxStack (the (pushing (intConst 1) (ExprNode ''ValueExpr'' []) ?er0)) = [intConst 1]"
    by auto
  ultimately show ?thesis by (simp add: push_def)
qed

subsection \<open>The Outer-Schema Stack around a nested build\<close>

text \<open>
  C9. \<open>buildSubquery\<close> runs the nested build on the builder whose Outer-Schema Stack is
  the stack so far with one more entry, the current schema, and whatever it returns,
  the stack it leaves is the stack the nested build left without its last entry. So if
  the nested build leaves the stack as it received it, \<open>buildSubquery\<close> returns (it does
  not panic) with the stack as it was before the call, both when the nested build
  succeeded (the result is the nested plan and the snapshot of the schema, and the
  rewriter's error is untouched) and when it recorded an error in the builder (the
  result is nil and the error is the rewriter's).
\<close>

theorem buildSubquery_restores_outerSchemas:
  "(\<forall>er' res. buildSubquery c query er = Some (er', res) \<longrightarrow>
      outerSchemas (er_b er') =
        butlast (outerSchemas (snd (buildResultSetNode c query
          ((er_b er)\<lparr>outerSchemas := outerSchemas (er_b er) @ [er_schema er]\<rparr>))))) \<and>
   (outerSchemas (snd (buildResultSetNode c query
        ((er_b er)\<lparr>outerSchemas := outerSchemas (er_b er) @ [er_schema er]\<rparr>)))
      = outerSchemas (er_b er) @ [er_schema er] \<longrightarrow>
    (\<exists>er' res. buildSubquery c query er = Some (er', res) \<and>
       outerSchemas (er_b er') = outerSchemas (er_b er) \<and>
       (case b_err (snd (buildResultSetNode c query
               ((er_b er)\<lparr>outerSchemas := outerSchemas (er_b er) @ [er_schema er]\<rparr>))) of
          None \<Rightarrow> er_err er' = er_err er \<and>
            res = Some (fst (buildResultSetNode c query
               ((er_b er)\<lparr>outerSchemas := outerSchemas (er_b er) @ [er_schema er]\<rparr>)), er_schema er)
        | Some e \<Rightarrow> er_err er' = Some e \<and> res = None)))"
  by (auto simp: buildSubquery_def Let_def butlast_conv_take split: prod.splits option.splits if_splits)

text \<open>
  A nested build that succeeds and one that fails, inside two enclosing queries.
\<close>

theorem buildSubquery_restores_outerSchemas_witness:
  "(\<exists>er' res. buildSubquery (ref_collaborators catalogue) (ResultSetNode ''select b from t2'') rewriter1
        = Some (er', res) \<and>
      outerSchemas (er_b er') = [GetSchema table_t2, [col ''t3'' ''b'']] \<and>
      er_err er' = None \<and> res = Some (table_t1col, GetSchema table_t)) \<and>
   (\<exists>er' res. buildSubquery (ref_collaborators catalogue) (ResultSetNode ''select b from t9'') rewriter1
        = Some (er', res) \<and>
      outerSchemas (er_b er') = [GetSchema table_t2, [col ''t3'' ''b'']] \<and>
      er_err er' = Some (CollaboratorError ''select b from t9'') \<and> res = None)"
  using buildSubquery_restores_outerSchemas
          [of "ref_collaborators catalogue" "ResultSetNode ''select b from t2''" rewriter1, THEN conjunct2]
        buildSubquery_restores_outerSchemas
          [of "ref_collaborators catalogue" "ResultSetNode ''select b from t9''" rewriter1, THEN conjunct2]
  by (simp add: ref_collaborators_def ref_buildResultSetNode_def state_simps)

subsection \<open>Column references\<close>




subsection \<open>Reading a user variable\<close>

text \<open>
  C10. A variable that is not a system variable and is not assigned: if its lower-case
  name is not in the session's user variables, \<open>rewriteVariable\<close> returns with a NULL
  constant of type \<open>TypeNull\<close> pushed and nothing else changed; if it is, and the registry
  resolves \<open>getvar\<close> with one argument, a \<open>getvar\<close> function node over the name is pushed
  and nothing else changed (if the registry does not, the registry's error is recorded).
  With the registry resolving \<open>getvar\<close>, a call that starts without an error ends without
  one, with one more entry on the stack.
\<close>

theorem rewriteVariable_user_read:
  "\<not> vr_IsSystem v \<and> \<not> vr_Value v \<longrightarrow>
     (ToLower c (vr_Name v) \<notin> dom (Users (b_ctx (er_b er))) \<longrightarrow>
        rewriteVariable c v er = Some (push (Constant KindNull (Some (NewFieldType TypeNull))) er)) \<and>
     (ToLower c (vr_Name v) \<in> dom (Users (b_ctx (er_b er))) \<and> Funcs c ast_GetVar 1 \<longrightarrow>
        rewriteVariable c v er =
          Some (push (ScalarFunction ast_GetVar
                        [Constant (KindString (ToLower c (vr_Name v))) (Some (NewFieldType TypeString))]
                        (Some (NewFieldType TypeString))) er)) \<and>
     (ToLower c (vr_Name v) \<in> dom (Users (b_ctx (er_b er))) \<and> \<not> Funcs c ast_GetVar 1 \<longrightarrow>
        rewriteVariable c v er = Some (er\<lparr>er_err := Some (FunctionError ast_GetVar 1)\<rparr>)) \<and>
     (\<forall>er'. rewriteVariable c v er = Some er' \<and> er_err er = None \<and>
         (ToLower c (vr_Name v) \<in> dom (Users (b_ctx (er_b er))) \<longrightarrow> Funcs c ast_GetVar 1) \<longrightarrow>
         er_err er' = None \<and> length (ctxStack er') = Suc (length (ctxStack er)))"
  by (auto simp: rewriteVariable_def Let_def NewFunction_def datumToConstant_def push_def)

theorem rewriteVariable_user_read_witness:
  "rewriteVariable (ref_collaborators [])
      \<lparr>vr_Name = ''Y'', vr_IsGlobal = False, vr_IsSystem = False, vr_Value = False\<rparr> rewriter0
     = Some (push (Constant KindNull (Some (NewFieldType TypeNull))) rewriter0) \<and>
   rewriteVariable (ref_collaborators [])
      \<lparr>vr_Name = ''X'', vr_IsGlobal = False, vr_IsSystem = False, vr_Value = False\<rparr> rewriter0
     = Some (push (ScalarFunction ''getvar'' [Constant (KindString ''x'') (Some (NewFieldType TypeString))]
                     (Some (NewFieldType TypeString))) rewriter0)"
proof -
  let ?c = "ref_collaborators []"
  let ?v = "\<lambda>n. \<lparr>vr_Name = n, vr_IsGlobal = False, vr_IsSystem = False, vr_Value = False\<rparr>"
  have l: "ToLower ?c ''Y'' = ''y''" "ToLower ?c ''X'' = ''x''"
    by (simp_all add: ref_collaborators_def ref_ToLower_def)
  have u: "''y'' \<notin> dom (Users (b_ctx (er_b rewriter0)))" "''x'' \<in> dom (Users (b_ctx (er_b rewriter0)))"
    by (simp_all add: state_simps)
  have f: "Funcs ?c ast_GetVar 1"
    by (simp add: ref_collaborators_def ref_Funcs_def registry_def ast_GetVar_def)
  note T = rewriteVariable_user_read [of _ ?c rewriter0, rule_format]
  have "rewriteVariable ?c (?v ''Y'') rewriter0
      = Some (push (Constant KindNull (Some (NewFieldType TypeNull))) rewriter0)"
    by (rule T [THEN conjunct1, rule_format]) (simp_all add: l u)
  moreover have "rewriteVariable ?c (?v ''X'') rewriter0
      = Some (push (ScalarFunction ast_GetVar
                [Constant (KindString (ToLower ?c (vr_Name (?v ''X'')))) (Some (NewFieldType TypeString))]
                (Some (NewFieldType TypeString))) rewriter0)"
    by (rule T [THEN conjunct2, THEN conjunct1, rule_format]) (insert f, simp_all add: l u)
  ultimately show ?thesis by (simp add: l ast_GetVar_def)
qed

subsection \<open>BETWEEN\<close>

text \<open>
  C7. The stack ends with the three operands \<open>val\<close>, \<open>low\<close>, \<open>high\<close>, and the clone of \<open>val\<close>
  is \<open>val'\<close>. Then \<open>val'\<close> is the same value as \<open>val\<close>; with NOT (and the registry resolving
  the three operators) the three operands are replaced by the one entry
  \<open>or (lt val low) (gt val' high)\<close>, without NOT by \<open>and (ge val low) (le val' high)\<close>; the
  clone is the first argument of the second comparison; the rest of the stack is
  unchanged and no error is recorded.
\<close>

theorem betweenToExpression_expands:
  "ctxStack er = stk @ [val, low, high] \<and> Clone val = Some val' \<longrightarrow>
     val' = val \<and>
     (bt_Not v \<and> Funcs c ast_LT 2 \<and> Funcs c ast_GT 2 \<and> Funcs c ast_OrOr 2 \<longrightarrow>
        betweenToExpression c v er =
          Some (er\<lparr>ctxStack := stk @
                   [ScalarFunction ast_OrOr
                      [ScalarFunction ast_LT [val, low] (Some (bt_Type v)),
                       ScalarFunction ast_GT [val', high] (Some (bt_Type v))]
                      (Some (bt_Type v))],
                  er_err := None\<rparr>)) \<and>
     (\<not> bt_Not v \<and> Funcs c ast_GE 2 \<and> Funcs c ast_LE 2 \<and> Funcs c ast_AndAnd 2 \<longrightarrow>
        betweenToExpression c v er =
          Some (er\<lparr>ctxStack := stk @
                   [ScalarFunction ast_AndAnd
                      [ScalarFunction ast_GE [val, low] (Some (bt_Type v)),
                       ScalarFunction ast_LE [val', high] (Some (bt_Type v))]
                      (Some (bt_Type v))],
                  er_err := None\<rparr>))"
proof (intro impI)
  assume h: "ctxStack er = stk @ [val, low, high] \<and> Clone val = Some val'"
  then have eq: "val' = val" by (cases val) auto
  have n: "length (ctxStack er) = length stk + 3"
    "ctxStack er ! length stk = val" "ctxStack er ! Suc (length stk) = low"
    "ctxStack er ! Suc (Suc (length stk)) = high" "take (length stk) (ctxStack er) = stk"
    using h by (simp_all add: nth_append)
  show "val' = val \<and>
     (bt_Not v \<and> Funcs c ast_LT 2 \<and> Funcs c ast_GT 2 \<and> Funcs c ast_OrOr 2 \<longrightarrow>
        betweenToExpression c v er =
          Some (er\<lparr>ctxStack := stk @
                   [ScalarFunction ast_OrOr
                      [ScalarFunction ast_LT [val, low] (Some (bt_Type v)),
                       ScalarFunction ast_GT [val', high] (Some (bt_Type v))]
                      (Some (bt_Type v))],
                  er_err := None\<rparr>)) \<and>
     (\<not> bt_Not v \<and> Funcs c ast_GE 2 \<and> Funcs c ast_LE 2 \<and> Funcs c ast_AndAnd 2 \<longrightarrow>
        betweenToExpression c v er =
          Some (er\<lparr>ctxStack := stk @
                   [ScalarFunction ast_AndAnd
                      [ScalarFunction ast_GE [val, low] (Some (bt_Type v)),
                       ScalarFunction ast_LE [val', high] (Some (bt_Type v))]
                      (Some (bt_Type v))],
                  er_err := None\<rparr>))"
    using h eq n
    by (simp add: betweenToExpression_def Let_def NewFunction_def numeral_2_eq_2 numeral_3_eq_3)
qed

theorem betweenToExpression_expands_witness:
  "betweenToExpression (ref_collaborators []) \<lparr>bt_Not = True, bt_Type = NewFieldType TypeTiny\<rparr>
      (rewriter0\<lparr>ctxStack := [intConst 7, intConst 5, intConst 1, intConst 10]\<rparr>)
     = Some (rewriter0\<lparr>ctxStack := [intConst 7,
          ScalarFunction ''or''
            [ScalarFunction ''lt'' [intConst 5, intConst 1] (Some (NewFieldType TypeTiny)),
             ScalarFunction ''gt'' [intConst 5, intConst 10] (Some (NewFieldType TypeTiny))]
            (Some (NewFieldType TypeTiny))]\<rparr>) \<and>
   betweenToExpression (ref_collaborators []) \<lparr>bt_Not = False, bt_Type = NewFieldType TypeTiny\<rparr>
      (rewriter0\<lparr>ctxStack := [intConst 7, intConst 5, intConst 1, intConst 10]\<rparr>)
     = Some (rewriter0\<lparr>ctxStack := [intConst 7,
          ScalarFunction ''and''
            [ScalarFunction ''ge'' [intConst 5, intConst 1] (Some (NewFieldType TypeTiny)),
             ScalarFunction ''le'' [intConst 5, intConst 10] (Some (NewFieldType TypeTiny))]
            (Some (NewFieldType TypeTiny))]\<rparr>)"
proof -
  let ?c = "ref_collaborators []"
  let ?er = "rewriter0\<lparr>ctxStack := [intConst 7, intConst 5, intConst 1, intConst 10]\<rparr>"
  have f: "Funcs ?c ast_LT 2" "Funcs ?c ast_GT 2" "Funcs ?c ast_OrOr 2"
    "Funcs ?c ast_GE 2" "Funcs ?c ast_LE 2" "Funcs ?c ast_AndAnd 2"
    by (simp_all add: ref_collaborators_def ref_Funcs_def registry_def ast_LT_def ast_GT_def
          ast_OrOr_def ast_GE_def ast_LE_def ast_AndAnd_def)
  have h: "ctxStack ?er = [intConst 7] @ [intConst 5, intConst 1, intConst 10] \<and>
      Clone (intConst 5) = Some (intConst 5)"
    by (simp add: intConst_def)
  note T = betweenToExpression_expands [of ?er "[intConst 7]" "intConst 5" "intConst 1" "intConst 10"
      "intConst 5" _ ?c, rule_format, OF h, THEN conjunct2]
  have "betweenToExpression ?c \<lparr>bt_Not = True, bt_Type = NewFieldType TypeTiny\<rparr> ?er = Some (?er\<lparr>ctxStack := [intConst 7] @
          [ScalarFunction ast_OrOr
            [ScalarFunction ast_LT [intConst 5, intConst 1] (Some (NewFieldType TypeTiny)),
             ScalarFunction ast_GT [intConst 5, intConst 10] (Some (NewFieldType TypeTiny))]
            (Some (NewFieldType TypeTiny))], er_err := None\<rparr>)"
    using T [of "\<lparr>bt_Not = True, bt_Type = NewFieldType TypeTiny\<rparr>", THEN conjunct1] f by simp
  moreover have "betweenToExpression ?c \<lparr>bt_Not = False, bt_Type = NewFieldType TypeTiny\<rparr> ?er = Some (?er\<lparr>ctxStack := [intConst 7] @
          [ScalarFunction ast_AndAnd
            [ScalarFunction ast_GE [intConst 5, intConst 1] (Some (NewFieldType TypeTiny)),
             ScalarFunction ast_LE [intConst 5, intConst 10] (Some (NewFieldType TypeTiny))]
            (Some (NewFieldType TypeTiny))], er_err := None\<rparr>)"
    using T [of "\<lparr>bt_Not = False, bt_Type = NewFieldType TypeTiny\<rparr>", THEN conjunct2] f by simp
  ultimately show ?thesis
    by (simp add: rewriter0_def ast_LT_def ast_GT_def ast_OrOr_def ast_GE_def ast_LE_def ast_AndAnd_def)
qed

subsection \<open>Unary operators\<close>

text \<open>
  C6. The claim fails on the code: for \<open>-x\<close> over the row \<open>(1, 2)\<close> the row-length check
  records "Operand should contain 1 column(s)", the function goes on, and the
  assignment of \<open>NewFunction\<close>'s results replaces the recorded error by nil: the rewriter
  ends without an error, the row wrapped in \<open>unaryminus\<close>. Only \<open>+x\<close>, which returns before
  that assignment, keeps the error.
\<close>

theorem unaryOpToExpression_row_operand_not_rejected:
  "unaryOpToExpression (ref_collaborators []) \<lparr>un_Op = OpMinus, un_Type = NewFieldType (TypeCode 8)\<rparr>
      (rewriter0\<lparr>ctxStack := [rowOf [intConst 1, intConst 2]]\<rparr>)
     = Some (rewriter0\<lparr>ctxStack :=
          [ScalarFunction ''unaryminus'' [rowOf [intConst 1, intConst 2]] (Some (NewFieldType (TypeCode 8)))]\<rparr>) \<and>
   unaryOpToExpression (ref_collaborators []) \<lparr>un_Op = OpPlus, un_Type = NewFieldType (TypeCode 8)\<rparr>
      (rewriter0\<lparr>ctxStack := [rowOf [intConst 1, intConst 2]]\<rparr>)
     = Some (rewriter0\<lparr>ctxStack := [rowOf [intConst 1, intConst 2]],
                       er_err := Some (OperandShouldContain 1)\<rparr>)"
  by (simp add: unaryOpToExpression_def ref_collaborators_def ref_Funcs_def registry_def NewFunction_def
        rowOf_def setTop_def rewriter0_def ast_UnaryMinus_def ast_RowFunc_def)

text \<open>
  For every registry: on a scalar operand \<open>+x\<close> leaves the rewriter as it is and the
  other three operators replace the operand by their function node; on an operand of
  another row-length only \<open>+x\<close> ends with the arity error.
\<close>

lemma unaryOpToExpression_scalar:
  "ctxStack er = stk @ [e] \<and> getRowLen e = Some 1 \<longrightarrow>
     (un_Op v = OpPlus \<longrightarrow> unaryOpToExpression c v er = Some er) \<and>
     (un_Op v = OpMinus \<and> Funcs c ast_UnaryMinus 1 \<longrightarrow>
        unaryOpToExpression c v er =
          Some (er\<lparr>ctxStack := stk @ [ScalarFunction ast_UnaryMinus [e] (Some (un_Type v))], er_err := None\<rparr>)) \<and>
     (un_Op v = OpBitNeg \<and> Funcs c ast_BitNeg 1 \<longrightarrow>
        unaryOpToExpression c v er =
          Some (er\<lparr>ctxStack := stk @ [ScalarFunction ast_BitNeg [e] (Some (un_Type v))], er_err := None\<rparr>)) \<and>
     (un_Op v = OpNot \<and> Funcs c ast_UnaryNot 1 \<longrightarrow>
        unaryOpToExpression c v er =
          Some (er\<lparr>ctxStack := stk @ [ScalarFunction ast_UnaryNot [e] (Some (un_Type v))], er_err := None\<rparr>))"
  by (simp add: unaryOpToExpression_def NewFunction_def setTop_def)

lemma unaryOpToExpression_row:
  "ctxStack er = stk @ [e] \<and> getRowLen e = Some n \<and> n \<noteq> 1 \<longrightarrow>
     (un_Op v = OpPlus \<longrightarrow>
        unaryOpToExpression c v er = Some (er\<lparr>er_err := Some (OperandShouldContain 1)\<rparr>)) \<and>
     (un_Op v = OpMinus \<and> Funcs c ast_UnaryMinus 1 \<longrightarrow>
        unaryOpToExpression c v er =
          Some (er\<lparr>ctxStack := stk @ [ScalarFunction ast_UnaryMinus [e] (Some (un_Type v))], er_err := None\<rparr>)) \<and>
     (un_Op v = OpBitNeg \<and> Funcs c ast_BitNeg 1 \<longrightarrow>
        unaryOpToExpression c v er =
          Some (er\<lparr>ctxStack := stk @ [ScalarFunction ast_BitNeg [e] (Some (un_Type v))], er_err := None\<rparr>)) \<and>
     (un_Op v = OpNot \<and> Funcs c ast_UnaryNot 1 \<longrightarrow>
        unaryOpToExpression c v er =
          Some (er\<lparr>ctxStack := stk @ [ScalarFunction ast_UnaryNot [e] (Some (un_Type v))], er_err := None\<rparr>))"
  by (simp add: unaryOpToExpression_def NewFunction_def setTop_def)

subsection \<open>Quantified comparisons\<close>

text \<open>
  C1. The claim fails on the code. The comment above the guard says that only \<open>= ALL\<close> and
  \<open>!= ANY\<close> can use a row; the guard \<open>canMultiCol\<close> below it admits \<open>= ANY\<close> and \<open>!= ALL\<close>
  instead (as \<open>handleInSubquery\<close> does for IN and NOT IN). With the row \<open>(1, 2)\<close> on the
  left and a subquery of two columns, \<open>= ALL\<close> ends with "Operand should contain 1
  column(s)" and \<open>= ANY\<close> ends without an error.
\<close>

theorem handleCompareSubquery_eq_all_counterexample:
  "map_option er_err
     (handleCompareSubquery (ref_collaborators catalogue) (pushing (rowOf [intConst 1, intConst 2]))
        \<lparr>cs_L = ExprNode ''RowExpr'' [], cs_Op = OpEQ,
         cs_R = SubqueryExpr (ResultSetNode ''select b, c from t2''), cs_All = True\<rparr> rewriter0)
     = Some (Some (OperandShouldContain 1)) \<and>
   map_option er_err
     (handleCompareSubquery (ref_collaborators catalogue) (pushing (rowOf [intConst 1, intConst 2]))
        \<lparr>cs_L = ExprNode ''RowExpr'' [], cs_Op = OpEQ,
         cs_R = SubqueryExpr (ResultSetNode ''select b, c from t2''), cs_All = False\<rparr> rewriter0)
     = Some None"
  by (simp add: eval_simps)

text \<open>
  The guard's condition at this input: the operand has row-length 2 and the subquery two
  columns, and \<open>= ALL\<close> is rejected.
\<close>

theorem handleCompareSubquery_eq_all_counterexample_witness:
  "getRowLen (rowOf [intConst 1, intConst 2]) = Some 2 \<and> length (GetSchema table_t2) = 2 \<and>
   map_option er_err
     (handleCompareSubquery (ref_collaborators catalogue) (pushing (rowOf [intConst 1, intConst 2]))
        \<lparr>cs_L = ExprNode ''RowExpr'' [], cs_Op = OpEQ,
         cs_R = SubqueryExpr (ResultSetNode ''select b, c from t2''), cs_All = True\<rparr> rewriter0)
     = Some (Some (OperandShouldContain 1))"
  using handleCompareSubquery_eq_all_counterexample
  by (simp add: rowOf_def table_t2_def)

text \<open>
  What the guard does, for every implementation of the collaborators. The left operand
  has been visited without an error and is \<open>lexpr\<close>, of
  row-length \<open>n\<close>, and the subquery's plan \<open>np\<close> has been built without an error. The
  combinations that admit several columns are \<open>= ANY\<close> and \<open>!= ALL\<close>. For every other
  combination of operator and quantifier, if \<open>n\<close> is not 1 or \<open>np\<close> does not have exactly
  one column, the rewrite ends with "Operand should contain 1 column(s)". For \<open>= ANY\<close> and
  \<open>!= ALL\<close>, if \<open>n\<close> is not the number of columns of \<open>np\<close> it ends with "Operand should
  contain n column(s)"; and if \<open>n > 1\<close> is the number of columns, the components of
  \<open>lexpr\<close> are scalar, and the registry resolves the row constructor and the operator,
  the comparison is accepted: the plan becomes the apply over \<open>np\<close> whose checker holds
  the conjunction of the \<open>n\<close> comparisons of a component with its column and the
  quantifier's flag, and the operand on the stack is replaced by the apply's last
  column, with no error.
\<close>

theorem handleCompareSubquery_arity:
  "accept (cs_L v) er = Some er1 \<and> er_err er1 = None \<and> ctxStack er1 = stk @ [lexpr] \<and>
   cs_R v = SubqueryExpr query \<and>
   buildSubquery c query er1 = Some (er2, Some (np, outerSchema)) \<and> er_err er2 = None \<and>
   getRowLen lexpr = Some n \<longrightarrow>
     (\<not> ((\<not> cs_All v \<and> cs_Op v = OpEQ) \<or> (cs_All v \<and> cs_Op v = OpNE)) \<and>
      (n \<noteq> 1 \<or> length (GetSchema np) \<noteq> 1) \<longrightarrow>
        handleCompareSubquery c accept v er = Some (er2\<lparr>er_err := Some (OperandShouldContain 1)\<rparr>)) \<and>
     (((\<not> cs_All v \<and> cs_Op v = OpEQ) \<or> (cs_All v \<and> cs_Op v = OpNE)) \<and>
      n \<noteq> length (GetSchema np) \<longrightarrow>
        handleCompareSubquery c accept v er = Some (er2\<lparr>er_err := Some (OperandShouldContain n)\<rparr>)) \<and>
     (((\<not> cs_All v \<and> cs_Op v = OpEQ) \<or> (cs_All v \<and> cs_Op v = OpNE)) \<and>
      n = length (GetSchema np) \<and> 1 < n \<and>
      (\<forall>i<n. \<exists>li. getRowArg lexpr i = Some li \<and> getRowLen li = Some 1) \<and>
      Funcs c ast_RowFunc n \<and> Funcs c (Ops (cs_Op v)) 2 \<and>
      GetSchema (buildApply c (er_p er2) np outerSchema
        (Some \<lparr>Condition = ComposeCNFCondition c
                  (map (\<lambda>i. ScalarFunction (Ops (cs_Op v))
                               [the (getRowArg lexpr i), Column (GetSchema np ! i)]
                               (Some (NewFieldType TypeTiny))) [0..<n]),
                checker_All = cs_All v\<rparr>)) \<noteq> [] \<longrightarrow>
        handleCompareSubquery c accept v er =
          Some (setTop (Column (last (GetSchema (buildApply c (er_p er2) np outerSchema
                  (Some \<lparr>Condition = ComposeCNFCondition c
                            (map (\<lambda>i. ScalarFunction (Ops (cs_Op v))
                                         [the (getRowArg lexpr i), Column (GetSchema np ! i)]
                                         (Some (NewFieldType TypeTiny))) [0..<n]),
                          checker_All = cs_All v\<rparr>)))))
                 (er2\<lparr>er_p := buildApply c (er_p er2) np outerSchema
                  (Some \<lparr>Condition = ComposeCNFCondition c
                            (map (\<lambda>i. ScalarFunction (Ops (cs_Op v))
                                         [the (getRowArg lexpr i), Column (GetSchema np ! i)]
                                         (Some (NewFieldType TypeTiny))) [0..<n]),
                          checker_All = cs_All v\<rparr>)\<rparr>)))"
proof (intro impI conjI)
  assume h: "accept (cs_L v) er = Some er1 \<and> er_err er1 = None \<and> ctxStack er1 = stk @ [lexpr] \<and>
   cs_R v = SubqueryExpr query \<and>
   buildSubquery c query er1 = Some (er2, Some (np, outerSchema)) \<and> er_err er2 = None \<and>
   getRowLen lexpr = Some n"
  { assume "\<not> ((\<not> cs_All v \<and> cs_Op v = OpEQ) \<or> (cs_All v \<and> cs_Op v = OpNE)) \<and>
      (n \<noteq> 1 \<or> length (GetSchema np) \<noteq> 1)"
    with h show "handleCompareSubquery c accept v er = Some (er2\<lparr>er_err := Some (OperandShouldContain 1)\<rparr>)"
      by (simp add: handleCompareSubquery_def Let_def) }
  { assume "((\<not> cs_All v \<and> cs_Op v = OpEQ) \<or> (cs_All v \<and> cs_Op v = OpNE)) \<and>
      n \<noteq> length (GetSchema np)"
    with h show "handleCompareSubquery c accept v er = Some (er2\<lparr>er_err := Some (OperandShouldContain n)\<rparr>)"
      by (simp add: handleCompareSubquery_def Let_def) }
  let ?fs = "map (\<lambda>i. ScalarFunction (Ops (cs_Op v))
                               [the (getRowArg lexpr i), Column (GetSchema np ! i)]
                               (Some (NewFieldType TypeTiny))) [0..<n]"
  let ?ap = "buildApply c (er_p er2) np outerSchema
        (Some \<lparr>Condition = ComposeCNFCondition c ?fs, checker_All = cs_All v\<rparr>)"
  let ?rexpr = "ScalarFunction ast_RowFunc (map Column (GetSchema np)) (Some (NewFieldType KindRowCode))"
  assume m: "((\<not> cs_All v \<and> cs_Op v = OpEQ) \<or> (cs_All v \<and> cs_Op v = OpNE)) \<and>
      n = length (GetSchema np) \<and> 1 < n \<and>
      (\<forall>i<n. \<exists>li. getRowArg lexpr i = Some li \<and> getRowLen li = Some 1) \<and>
      Funcs c ast_RowFunc n \<and> Funcs c (Ops (cs_Op v)) 2 \<and> GetSchema ?ap \<noteq> []"
  note cm = m [THEN conjunct1]
  note nl = m [THEN conjunct2, THEN conjunct1, symmetric]
  note n1 = m [THEN conjunct2, THEN conjunct2, THEN conjunct1]
  note sc = m [THEN conjunct2, THEN conjunct2, THEN conjunct2, THEN conjunct1]
  note fr = m [THEN conjunct2, THEN conjunct2, THEN conjunct2, THEN conjunct2, THEN conjunct1]
  note fo = m [THEN conjunct2, THEN conjunct2, THEN conjunct2, THEN conjunct2, THEN conjunct2,
    THEN conjunct1]
  note ne = m [THEN conjunct2, THEN conjunct2, THEN conjunct2, THEN conjunct2, THEN conjunct2,
    THEN conjunct2]
  have row: "subqueryRow c (Some (NewFieldType KindRowCode)) np = (?rexpr, None)"
    using nl n1 fr by (simp add: subqueryRow_def NewFunction_def)
  have "constructBinaryOpFunction c lexpr ?rexpr (Ops (cs_Op v)) = Some (ComposeCNFCondition c ?fs, None)"
  proof (rule constructBinaryOpFunction_rows [where n = n])
    show "getRowLen lexpr = Some n" using h by simp
    show "getRowLen ?rexpr = Some n" using nl by simp
    show "1 < n" by (rule n1)
    show "length ?fs = n" by simp
    show "\<forall>i<n. \<exists>li ri. getRowArg lexpr i = Some li \<and> getRowArg ?rexpr i = Some ri \<and>
           constructBinaryOpFunction c li ri (Ops (cs_Op v)) = Some (?fs ! i, None)"
    proof (intro allI impI)
      fix i assume i: "i < n"
      with sc obtain li where li: "getRowArg lexpr i = Some li" "getRowLen li = Some 1" by blast
      have "getRowArg ?rexpr i = Some (Column (GetSchema np ! i))" using i nl by simp
      moreover have "constructBinaryOpFunction c li (Column (GetSchema np ! i)) (Ops (cs_Op v))
          = Some (?fs ! i, None)"
        using li i fo by (simp add: constructBinaryOpFunction.simps NewFunction_def numeral_2_eq_2)
      ultimately show "\<exists>li ri. getRowArg lexpr i = Some li \<and> getRowArg ?rexpr i = Some ri \<and>
           constructBinaryOpFunction c li ri (Ops (cs_Op v)) = Some (?fs ! i, None)"
        using li by blast
    qed
  qed
  then have cb: "(if cs_Op v = OpEQ \<or> cs_Op v = OpNE \<or> cs_Op v = OpNullEQ
       then constructBinaryOpFunction c lexpr ?rexpr (Ops (cs_Op v))
       else Some (NewFunction c (Ops (cs_Op v)) (Some (NewFieldType TypeTiny)) [lexpr, ?rexpr]))
      = Some (ComposeCNFCondition c ?fs, None)"
    using cm by auto
  show "handleCompareSubquery c accept v er = Some (setTop (Column (last (GetSchema ?ap))) (er2\<lparr>er_p := ?ap\<rparr>))"
    using h nl ne cm
    by (auto simp: handleCompareSubquery_def Let_def lastColumn_def row cb simp del: getRowLen.simps)
qed

text \<open>
  \<open>(1, 2) < ALL\<close> over two columns, \<open>(1, 2) != ALL\<close> over one column, and \<open>(1, 2) = ANY\<close>
  over two columns.
\<close>

theorem handleCompareSubquery_arity_witness:
  "handleCompareSubquery (ref_collaborators catalogue) (pushing (rowOf [intConst 1, intConst 2]))
      \<lparr>cs_L = ExprNode ''RowExpr'' [], cs_Op = OpLT,
       cs_R = SubqueryExpr (ResultSetNode ''select b, c from t2''), cs_All = True\<rparr> rewriter0
     = Some ((push (rowOf [intConst 1, intConst 2]) rewriter0)\<lparr>er_err := Some (OperandShouldContain 1)\<rparr>) \<and>
   handleCompareSubquery (ref_collaborators catalogue) (pushing (rowOf [intConst 1, intConst 2]))
      \<lparr>cs_L = ExprNode ''RowExpr'' [], cs_Op = OpNE,
       cs_R = SubqueryExpr (ResultSetNode ''select b from t2''), cs_All = True\<rparr> rewriter0
     = Some ((push (rowOf [intConst 1, intConst 2]) rewriter0)\<lparr>er_err := Some (OperandShouldContain 2)\<rparr>) \<and>
   handleCompareSubquery (ref_collaborators catalogue) (pushing (rowOf [intConst 1, intConst 2]))
      \<lparr>cs_L = ExprNode ''RowExpr'' [], cs_Op = OpEQ,
       cs_R = SubqueryExpr (ResultSetNode ''select b, c from t2''), cs_All = False\<rparr> rewriter0
     = Some (rewriter0
         \<lparr>ctxStack := [Column (matchColumn ''exists_row'')],
          er_p := ref_buildApply table_t table_t2 (GetSchema table_t)
            (Some \<lparr>Condition = ScalarFunction ''and''
                      [ScalarFunction ''eq'' [intConst 1, Column (col ''t2'' ''b'')] (Some (NewFieldType TypeTiny)),
                       ScalarFunction ''eq'' [intConst 2, Column (col ''t2'' ''c'')] (Some (NewFieldType TypeTiny))]
                      (Some (NewFieldType TypeTiny)),
                    checker_All = False\<rparr>)\<rparr>)"
proof -
  let ?c = "ref_collaborators catalogue"
  let ?row = "rowOf [intConst 1, intConst 2]"
  let ?er1 = "push ?row rewriter0"
  let ?q2 = "ResultSetNode ''select b, c from t2''"
  let ?q1 = "ResultSetNode ''select b from t2''"
  let ?v = "\<lambda>op q a. \<lparr>cs_L = ExprNode ''RowExpr'' [], cs_Op = op, cs_R = SubqueryExpr q, cs_All = a\<rparr>"
  note D = buildSubquery_def ref_collaborators_def ref_buildResultSetNode_def catalogue_def
    rewriter0_def builder0_def push_def pushing_def rowOf_def
  have b2: "buildSubquery ?c ?q2 ?er1 = Some (?er1, Some (table_t2, GetSchema table_t))"
    by (simp add: D table_t_def)
  have b1: "buildSubquery ?c ?q1 ?er1 = Some (?er1, Some (table_t1col, GetSchema table_t))"
    by (simp add: D table_t_def)
  have h2: "pushing ?row (cs_L (?v op ?q2 a)) rewriter0 = Some ?er1 \<and> er_err ?er1 = None \<and>
      ctxStack ?er1 = [] @ [?row] \<and> cs_R (?v op ?q2 a) = SubqueryExpr ?q2 \<and>
      buildSubquery ?c ?q2 ?er1 = Some (?er1, Some (table_t2, GetSchema table_t)) \<and>
      er_err ?er1 = None \<and> getRowLen ?row = Some 2" for op a
    using b2 by (simp add: pushing_def push_def rewriter0_def rowOf_def)
  have h1: "pushing ?row (cs_L (?v op ?q1 a)) rewriter0 = Some ?er1 \<and> er_err ?er1 = None \<and>
      ctxStack ?er1 = [] @ [?row] \<and> cs_R (?v op ?q1 a) = SubqueryExpr ?q1 \<and>
      buildSubquery ?c ?q1 ?er1 = Some (?er1, Some (table_t1col, GetSchema table_t)) \<and>
      er_err ?er1 = None \<and> getRowLen ?row = Some 2" for op a
    using b1 by (simp add: pushing_def push_def rewriter0_def rowOf_def)
  note T = handleCompareSubquery_arity [where accept = "pushing ?row" and er = rewriter0 and c = ?c
      and ?er1.0 = ?er1 and ?er2.0 = ?er1 and stk = "[]" and lexpr = ?row and n = 2
      and outerSchema = "GetSchema table_t"]
  note T2 = T [where query = ?q2 and np = table_t2]
  note T1 = T [where query = ?q1 and np = table_t1col]
  have A: "handleCompareSubquery ?c (pushing ?row) (?v OpLT ?q2 True) rewriter0
      = Some (?er1\<lparr>er_err := Some (OperandShouldContain 1)\<rparr>)"
    using T2 [where v = "?v OpLT ?q2 True", rule_format, OF h2 [of OpLT True], THEN conjunct1]
    by simp
  have B: "handleCompareSubquery ?c (pushing ?row) (?v OpNE ?q1 True) rewriter0
      = Some (?er1\<lparr>er_err := Some (OperandShouldContain 2)\<rparr>)"
    using T1 [where v = "?v OpNE ?q1 True", rule_format, OF h1 [of OpNE True], THEN conjunct2, THEN conjunct1]
    by (simp add: table_t1col_def)
  have cmp: "ComposeCNFCondition ?c [a, b] = ScalarFunction ''and'' [a, b] (Some (NewFieldType TypeTiny))" for a b
    by (simp add: ref_collaborators_def ref_ComposeCNFCondition.simps [of "[a, b]"]
          ref_ComposeCNFCondition.simps [of "[x]" for x] ast_AndAnd_def)
  have C: "handleCompareSubquery ?c (pushing ?row) (?v OpEQ ?q2 False) rewriter0
      = Some (rewriter0
         \<lparr>ctxStack := [Column (matchColumn ''exists_row'')],
          er_p := ref_buildApply table_t table_t2 (GetSchema table_t)
            (Some \<lparr>Condition = ScalarFunction ''and''
                      [ScalarFunction ''eq'' [intConst 1, Column (col ''t2'' ''b'')] (Some (NewFieldType TypeTiny)),
                       ScalarFunction ''eq'' [intConst 2, Column (col ''t2'' ''c'')] (Some (NewFieldType TypeTiny))]
                      (Some (NewFieldType TypeTiny)),
                    checker_All = False\<rparr>)\<rparr>)"
    using T2 [where v = "?v OpEQ ?q2 False", rule_format, OF h2 [of OpEQ False], THEN conjunct2, THEN conjunct2]
    by (simp add: table_t2_def table_t_def all_less_2 rowOf_def intConst_def ref_collaborators_def
          ref_Funcs_def registry_def ast_RowFunc_def ref_buildApply_def rewriter0_def push_def
          setTop_def upt_rec [of 0 2] upt_rec [of 1 2] upt_rec [of 2 2] cmp [unfolded ref_collaborators_def, simplified])
  from A B C show ?thesis by simp
qed

subsection \<open>EXISTS\<close>

text \<open>
  C4. The subquery of an EXISTS has been built without an error and the plan that
  \<open>buildExists\<close> wraps around it is correlated. The outer plan, the stack and the scalar
  flag are those of the rewriter before the call. If the first child of the wrapped plan
  is a selection whose own first child is not correlated, the rewriter's plan becomes
  the semi-join (not negated) of the outer plan with that child on the selection's
  conditions: with nothing pushed when no scalar is asked for, and with the semi-join's
  last column pushed otherwise. In every other case (no first child, a first child that
  is not a selection, or a selection over a correlated child) the plan becomes the
  apply, without a checker, of the outer plan and the wrapped plan, and the apply's
  last column is pushed.
\<close>

theorem handleExistSubquery_correlated:
  "ex_Sel v = SubqueryExpr query \<and>
   buildSubquery c query er = Some (er1, Some (np0, outerSchema)) \<and> er_err er1 = None \<and>
   IsCorrelated (buildExists c np0) \<longrightarrow>
     er_p er1 = er_p er \<and> asScalar er1 = asScalar er \<and> ctxStack er1 = ctxStack er \<and>
     (\<forall>sel conditions child.
        GetChildByIndex (buildExists c np0) 0 = Some sel \<and> planOp sel = Selection conditions \<and>
        GetChildByIndex sel 0 = Some child \<and> \<not> IsCorrelated child \<longrightarrow>
          (\<not> asScalar er \<longrightarrow>
             handleExistSubquery c v er =
               Some (er1\<lparr>er_p := buildSemiJoin c (er_p er) child conditions False False\<rparr>)) \<and>
          (asScalar er \<and> GetSchema (buildSemiJoin c (er_p er) child conditions True False) \<noteq> [] \<longrightarrow>
             handleExistSubquery c v er =
               Some (push (Column (last (GetSchema (buildSemiJoin c (er_p er) child conditions True False))))
                      (er1\<lparr>er_p := buildSemiJoin c (er_p er) child conditions True False\<rparr>)))) \<and>
     ((\<forall>sel conditions. GetChildByIndex (buildExists c np0) 0 = Some sel \<and>
          planOp sel = Selection conditions \<longrightarrow>
          (\<exists>child. GetChildByIndex sel 0 = Some child \<and> IsCorrelated child)) \<and>
      GetSchema (buildApply c (er_p er) (buildExists c np0) outerSchema None) \<noteq> [] \<longrightarrow>
        handleExistSubquery c v er =
          Some (push (Column (last (GetSchema (buildApply c (er_p er) (buildExists c np0) outerSchema None))))
                 (er1\<lparr>er_p := buildApply c (er_p er) (buildExists c np0) outerSchema None\<rparr>)))"
proof (intro impI)
  assume h: "ex_Sel v = SubqueryExpr query \<and>
   buildSubquery c query er = Some (er1, Some (np0, outerSchema)) \<and> er_err er1 = None \<and>
   IsCorrelated (buildExists c np0)"
  then have fr: "er_p er1 = er_p er" "asScalar er1 = asScalar er" "ctxStack er1 = ctxStack er"
    using buildSubquery_frame [of c query er er1] by auto
  let ?np = "buildExists c np0"
  have a: "\<And>sel conditions child.
        GetChildByIndex ?np 0 = Some sel \<Longrightarrow> planOp sel = Selection conditions \<Longrightarrow>
        GetChildByIndex sel 0 = Some child \<Longrightarrow> \<not> IsCorrelated child \<Longrightarrow>
          (\<not> asScalar er \<longrightarrow>
             handleExistSubquery c v er =
               Some (er1\<lparr>er_p := buildSemiJoin c (er_p er) child conditions False False\<rparr>)) \<and>
          (asScalar er \<and> GetSchema (buildSemiJoin c (er_p er) child conditions True False) \<noteq> [] \<longrightarrow>
             handleExistSubquery c v er =
               Some (push (Column (last (GetSchema (buildSemiJoin c (er_p er) child conditions True False))))
                      (er1\<lparr>er_p := buildSemiJoin c (er_p er) child conditions True False\<rparr>)))"
  proof -
    fix sel conditions child
    assume s: "GetChildByIndex ?np 0 = Some sel" "planOp sel = Selection conditions"
      "GetChildByIndex sel 0 = Some child" "\<not> IsCorrelated child"
    obtain sch cor chs where sel: "sel = Plan (Selection conditions) sch cor chs"
      using s(2) by (cases sel) auto
    show "(\<not> asScalar er \<longrightarrow>
             handleExistSubquery c v er =
               Some (er1\<lparr>er_p := buildSemiJoin c (er_p er) child conditions False False\<rparr>)) \<and>
          (asScalar er \<and> GetSchema (buildSemiJoin c (er_p er) child conditions True False) \<noteq> [] \<longrightarrow>
             handleExistSubquery c v er =
               Some (push (Column (last (GetSchema (buildSemiJoin c (er_p er) child conditions True False))))
                      (er1\<lparr>er_p := buildSemiJoin c (er_p er) child conditions True False\<rparr>)))"
      using h fr s(1,3,4) unfolding sel
      by (simp add: handleExistSubquery_def Let_def lastColumn_def)
  qed
  have b: "(\<forall>sel conditions. GetChildByIndex ?np 0 = Some sel \<and>
          planOp sel = Selection conditions \<longrightarrow>
          (\<exists>child. GetChildByIndex sel 0 = Some child \<and> IsCorrelated child)) \<Longrightarrow>
      GetSchema (buildApply c (er_p er) ?np outerSchema None) \<noteq> [] \<Longrightarrow>
        handleExistSubquery c v er =
          Some (push (Column (last (GetSchema (buildApply c (er_p er) ?np outerSchema None))))
                 (er1\<lparr>er_p := buildApply c (er_p er) ?np outerSchema None\<rparr>))"
  proof -
    assume o: "\<forall>sel conditions. GetChildByIndex ?np 0 = Some sel \<and>
          planOp sel = Selection conditions \<longrightarrow>
          (\<exists>child. GetChildByIndex sel 0 = Some child \<and> IsCorrelated child)"
      and ne: "GetSchema (buildApply c (er_p er) ?np outerSchema None) \<noteq> []"
    show "handleExistSubquery c v er =
          Some (push (Column (last (GetSchema (buildApply c (er_p er) ?np outerSchema None))))
                 (er1\<lparr>er_p := buildApply c (er_p er) ?np outerSchema None\<rparr>))"
    proof (cases "GetChildByIndex ?np 0")
      case None
      with h fr ne show ?thesis
        by (simp add: handleExistSubquery_def Let_def lastColumn_def)
    next
      case (Some sel)
      obtain pop sch cor chs where sel: "sel = Plan pop sch cor chs" by (cases sel)
      show ?thesis
      proof (cases pop)
        case (Selection conditions)
        with o Some sel obtain child where
          "GetChildByIndex (Plan (Selection conditions) sch cor chs) 0 = Some child" "IsCorrelated child"
          by auto
        with h fr ne Some sel Selection show ?thesis
          by (simp add: handleExistSubquery_def Let_def lastColumn_def)
      next
        case (LogicalOp name)
        with h fr ne Some sel show ?thesis
          by (simp add: handleExistSubquery_def Let_def lastColumn_def)
      qed
    qed
  qed
  from fr a b show "er_p er1 = er_p er \<and> asScalar er1 = asScalar er \<and> ctxStack er1 = ctxStack er \<and>
     (\<forall>sel conditions child.
        GetChildByIndex (buildExists c np0) 0 = Some sel \<and> planOp sel = Selection conditions \<and>
        GetChildByIndex sel 0 = Some child \<and> \<not> IsCorrelated child \<longrightarrow>
          (\<not> asScalar er \<longrightarrow>
             handleExistSubquery c v er =
               Some (er1\<lparr>er_p := buildSemiJoin c (er_p er) child conditions False False\<rparr>)) \<and>
          (asScalar er \<and> GetSchema (buildSemiJoin c (er_p er) child conditions True False) \<noteq> [] \<longrightarrow>
             handleExistSubquery c v er =
               Some (push (Column (last (GetSchema (buildSemiJoin c (er_p er) child conditions True False))))
                      (er1\<lparr>er_p := buildSemiJoin c (er_p er) child conditions True False\<rparr>)))) \<and>
     ((\<forall>sel conditions. GetChildByIndex (buildExists c np0) 0 = Some sel \<and>
          planOp sel = Selection conditions \<longrightarrow>
          (\<exists>child. GetChildByIndex sel 0 = Some child \<and> IsCorrelated child)) \<and>
      GetSchema (buildApply c (er_p er) (buildExists c np0) outerSchema None) \<noteq> [] \<longrightarrow>
        handleExistSubquery c v er =
          Some (push (Column (last (GetSchema (buildApply c (er_p er) (buildExists c np0) outerSchema None))))
                 (er1\<lparr>er_p := buildApply c (er_p er) (buildExists c np0) outerSchema None\<rparr>)))"
    by blast
qed

text \<open>
  A correlated filter over a table, asked for as a scalar and as a filter, and the same
  under a limit.
\<close>

theorem handleExistSubquery_correlated_witness:
  "handleExistSubquery (ref_collaborators catalogue)
      \<lparr>ex_Sel = SubqueryExpr (ResultSetNode ''select * from t2 where t2.c = t.k'')\<rparr> rewriter0 =
     Some (push (Column (matchColumn ''exists_col''))
       (rewriter0\<lparr>er_p := ref_buildSemiJoin table_t table_t2
          [ScalarFunction ''eq'' [Column (col ''t2'' ''c''), CorrelatedColumn (col ''t'' ''k'')]
             (Some (NewFieldType TypeTiny))] True False\<rparr>)) \<and>
   handleExistSubquery (ref_collaborators catalogue)
      \<lparr>ex_Sel = SubqueryExpr (ResultSetNode ''select * from t2 where t2.c = t.k'')\<rparr>
      (rewriter0\<lparr>asScalar := False\<rparr>) =
     Some (rewriter0\<lparr>asScalar := False, er_p := ref_buildSemiJoin table_t table_t2
          [ScalarFunction ''eq'' [Column (col ''t2'' ''c''), CorrelatedColumn (col ''t'' ''k'')]
             (Some (NewFieldType TypeTiny))] False False\<rparr>) \<and>
   handleExistSubquery (ref_collaborators catalogue)
      \<lparr>ex_Sel = SubqueryExpr (ResultSetNode ''select * from t2 where t2.c = t.k limit 1'')\<rparr> rewriter0 =
     Some (push (Column (matchColumn ''exists_col''))
       (rewriter0\<lparr>er_p := ref_buildApply table_t (ref_buildExists correlated_limit)
          (GetSchema table_t) None\<rparr>))"
proof -
  let ?c = "ref_collaborators catalogue"
  let ?q = "ResultSetNode ''select * from t2 where t2.c = t.k''"
  let ?ql = "ResultSetNode ''select * from t2 where t2.c = t.k limit 1''"
  let ?cond = "ScalarFunction ''eq'' [Column (col ''t2'' ''c''), CorrelatedColumn (col ''t'' ''k'')]
             (Some (NewFieldType TypeTiny))"
  let ?f = "rewriter0\<lparr>asScalar := False\<rparr>"
  note D = ref_collaborators_def ref_buildResultSetNode_def ref_buildExists_def ref_buildApply_def
    ref_buildSemiJoin_def GetChildByIndex_def buildSubquery_def
  have c[simp]: "buildExists ?c = ref_buildExists" "buildSemiJoin ?c = ref_buildSemiJoin"
    "buildApply ?c = ref_buildApply"
    by (simp_all add: ref_collaborators_def)
  have p[simp]: "er_p rewriter0 = table_t" "asScalar rewriter0" "er_p ?f = table_t" "\<not> asScalar ?f"
    by (simp_all add: rewriter0_def)
  have h1: "ex_Sel \<lparr>ex_Sel = SubqueryExpr ?q\<rparr> = SubqueryExpr ?q \<and>
      buildSubquery ?c ?q rewriter0 = Some (rewriter0, Some (correlated_filter, GetSchema table_t)) \<and>
      er_err rewriter0 = None \<and> IsCorrelated (buildExists ?c correlated_filter)"
    by (simp add: D catalogue_def rewriter0_def builder0_def correlated_filter_def)
  have h2: "ex_Sel \<lparr>ex_Sel = SubqueryExpr ?q\<rparr> = SubqueryExpr ?q \<and>
      buildSubquery ?c ?q ?f = Some (?f, Some (correlated_filter, GetSchema table_t)) \<and>
      er_err ?f = None \<and> IsCorrelated (buildExists ?c correlated_filter)"
    by (simp add: D catalogue_def rewriter0_def builder0_def correlated_filter_def)
  have h3: "ex_Sel \<lparr>ex_Sel = SubqueryExpr ?ql\<rparr> = SubqueryExpr ?ql \<and>
      buildSubquery ?c ?ql rewriter0 = Some (rewriter0, Some (correlated_limit, GetSchema table_t)) \<and>
      er_err rewriter0 = None \<and> IsCorrelated (buildExists ?c correlated_limit)"
    by (simp add: D catalogue_def rewriter0_def builder0_def correlated_limit_def)
  have s: "GetChildByIndex (buildExists ?c correlated_filter) 0 = Some correlated_filter \<and>
      planOp correlated_filter = Selection [?cond] \<and>
      GetChildByIndex correlated_filter 0 = Some table_t2 \<and> \<not> IsCorrelated table_t2"
    by (simp add: D correlated_filter_def table_t2_def)
  have 1: "handleExistSubquery ?c \<lparr>ex_Sel = SubqueryExpr ?q\<rparr> rewriter0 =
      Some (push (Column (last (GetSchema (ref_buildSemiJoin table_t table_t2 [?cond] True False))))
             (rewriter0\<lparr>er_p := ref_buildSemiJoin table_t table_t2 [?cond] True False\<rparr>))"
    using handleExistSubquery_correlated [rule_format, OF h1, THEN conjunct2, THEN conjunct2,
        THEN conjunct2, THEN conjunct1, rule_format, OF s, THEN conjunct2]
    by (simp add: ref_buildSemiJoin_def)
  have 2: "handleExistSubquery ?c \<lparr>ex_Sel = SubqueryExpr ?q\<rparr> ?f =
      Some (?f\<lparr>er_p := ref_buildSemiJoin table_t table_t2 [?cond] False False\<rparr>)"
    using handleExistSubquery_correlated [rule_format, OF h2, THEN conjunct2, THEN conjunct2,
        THEN conjunct2, THEN conjunct1, rule_format, OF s, THEN conjunct1]
    by simp
  have 3: "handleExistSubquery ?c \<lparr>ex_Sel = SubqueryExpr ?ql\<rparr> rewriter0 =
      Some (push (Column (last (GetSchema (ref_buildApply table_t (ref_buildExists correlated_limit)
                (GetSchema table_t) None))))
             (rewriter0\<lparr>er_p := ref_buildApply table_t (ref_buildExists correlated_limit)
                (GetSchema table_t) None\<rparr>))"
    using handleExistSubquery_correlated [rule_format, OF h3, THEN conjunct2, THEN conjunct2,
        THEN conjunct2, THEN conjunct2]
    by (simp add: ref_buildApply_def ref_buildExists_def GetChildByIndex_def correlated_limit_def)
  from 1 2 3 show ?thesis
    by (simp add: ref_buildSemiJoin_def ref_buildApply_def ref_buildExists_def)
qed

subsection \<open>IN with a subquery\<close>

text \<open>
  C5. The claim fails on the code: for \<open>((1, 2), 3) IN (select b, c from t2)\<close>, a subquery
  that is not correlated, the row-lengths agree (2 and 2 columns), the construction of
  the equality fails on the first component ("Operand should contain 2 column(s)",
  with a nil condition), and \<open>handleInSubquery\<close> builds the semi-join from the nil
  condition and returns with no error recorded.
\<close>

theorem handleInSubquery_drops_error:
  "constructBinaryOpFunction (ref_collaborators catalogue)
      (rowOf [rowOf [intConst 1, intConst 2], intConst 3])
      (ScalarFunction ast_RowFunc (map Column (GetSchema table_t2)) None) ast_EQ
     = Some (NilExpression, Some (OperandShouldContain 2)) \<and>
   map_option (\<lambda>er. (er_err er, ctxStack er, er_p er))
     (handleInSubquery (ref_collaborators catalogue)
        (pushing (rowOf [rowOf [intConst 1, intConst 2], intConst 3]))
        \<lparr>in_Expr = ExprNode ''RowExpr'' [], in_Not = False,
         in_Sel = SubqueryExpr (ResultSetNode ''select b, c from t2''),
         in_Type = NewFieldType TypeTiny\<rparr> (rewriter0\<lparr>asScalar := False\<rparr>))
     = Some (None, [], ref_buildSemiJoin table_t table_t2 [NilExpression] False False)"
  by (simp add: eval_simps)

text \<open>
  For every implementation of the collaborators: when the subquery is not correlated,
  the result of \<open>handleInSubquery\<close> does not depend on the error \<open>err\<close> that the
  construction of the equality returned.
\<close>

lemma handleInSubquery_uncorrelated_ignores_error:
  "accept (in_Expr v) (er\<lparr>asScalar := True\<rparr>) = Some er1 \<and> er_err er1 = None \<and>
   ctxStack er1 = stk @ [lexpr] \<and> in_Sel v = SubqueryExpr query \<and>
   buildSubquery c query er1 = Some (er2, Some (np, outerSchema)) \<and> er_err er2 = None \<and>
   getRowLen lexpr = Some (length (GetSchema np)) \<and>
   subqueryRow c None np = (rexpr, None) \<and>
   constructBinaryOpFunction c lexpr rexpr ast_EQ = Some (checkCondition, err) \<and>
   \<not> IsCorrelated np \<and> SplitCNFItems c checkCondition = Some conditions \<and> \<not> asScalar er \<longrightarrow>
     handleInSubquery c accept v er =
       Some (er2\<lparr>er_p := buildSemiJoin c (er_p er2) np conditions False (in_Not v), ctxStack := stk\<rparr>)"
proof
  assume h: "accept (in_Expr v) (er\<lparr>asScalar := True\<rparr>) = Some er1 \<and> er_err er1 = None \<and>
   ctxStack er1 = stk @ [lexpr] \<and> in_Sel v = SubqueryExpr query \<and>
   buildSubquery c query er1 = Some (er2, Some (np, outerSchema)) \<and> er_err er2 = None \<and>
   getRowLen lexpr = Some (length (GetSchema np)) \<and>
   subqueryRow c None np = (rexpr, None) \<and>
   constructBinaryOpFunction c lexpr rexpr ast_EQ = Some (checkCondition, err) \<and>
   \<not> IsCorrelated np \<and> SplitCNFItems c checkCondition = Some conditions \<and> \<not> asScalar er"
  then have "ctxStack er2 = stk @ [lexpr]"
    using buildSubquery_frame [of c query er1 er2] by simp
  with h show "handleInSubquery c accept v er =
       Some (er2\<lparr>er_p := buildSemiJoin c (er_p er2) np conditions False (in_Not v), ctxStack := stk\<rparr>)"
    by (simp add: handleInSubquery_def Let_def del: getRowLen.simps)
qed

end
